theory Spec2Isabelle
  imports Complex_Main "HOL-Library.AList" "HOL-Library.Sublist"
begin

section \<open>Python values used by \<open>routers/todos.py\<close>\<close>

text \<open>
  A Python \<open>str\<close> is a sequence of Unicode code points, and \<open>len\<close> counts code points;
  the seeded titles are Chinese, so a string is modelled as the list of its code points.
  \<open>ascii\<close> writes an ASCII literal as such a list.
\<close>

type_synonym str = "nat list"

definition ascii :: "string \<Rightarrow> str" where
  "ascii cs = map of_char cs"

text \<open>
  \<open>datetime.now().isoformat()\<close> is modelled by the instant it denotes; the rendering has
  fixed-width fields, so the order of the strings is the order of the instants.
\<close>

type_synonym timestamp = nat

text \<open>\<open>class TodoPriority(str, Enum)\<close> and \<open>class TodoStatus(str, Enum)\<close>.\<close>

datatype TodoPriority = LOW | MEDIUM | HIGH

datatype TodoStatus = PENDING | IN_PROGRESS | COMPLETED

text \<open>\<open>member.value\<close>: the string the member was declared with.\<close>

fun TodoPriority_value :: "TodoPriority \<Rightarrow> str" where
  "TodoPriority_value LOW = ascii ''low''"
| "TodoPriority_value MEDIUM = ascii ''medium''"
| "TodoPriority_value HIGH = ascii ''high''"

fun TodoStatus_value :: "TodoStatus \<Rightarrow> str" where
  "TodoStatus_value PENDING = ascii ''pending''"
| "TodoStatus_value IN_PROGRESS = ascii ''in_progress''"
| "TodoStatus_value COMPLETED = ascii ''completed''"

text \<open>
  \<open>str(member)\<close>. For an enum that mixes in \<open>str\<close> (it is not a \<open>StrEnum\<close>) the
  conversion is \<open>Enum.__str__\<close>, which gives the class name, a dot and the member name:
  \<open>str(TodoStatus.COMPLETED) == 'TodoStatus.COMPLETED'\<close>.
\<close>

fun TodoPriority_str :: "TodoPriority \<Rightarrow> str" where
  "TodoPriority_str LOW = ascii ''TodoPriority.LOW''"
| "TodoPriority_str MEDIUM = ascii ''TodoPriority.MEDIUM''"
| "TodoPriority_str HIGH = ascii ''TodoPriority.HIGH''"

fun TodoStatus_str :: "TodoStatus \<Rightarrow> str" where
  "TodoStatus_str PENDING = ascii ''TodoStatus.PENDING''"
| "TodoStatus_str IN_PROGRESS = ascii ''TodoStatus.IN_PROGRESS''"
| "TodoStatus_str COMPLETED = ascii ''TodoStatus.COMPLETED''"

text \<open>\<open>for priority in TodoPriority\<close> and \<open>for status in TodoStatus\<close>: declaration order.\<close>

definition TodoPriority_members :: "TodoPriority list" where
  "TodoPriority_members = [LOW, MEDIUM, HIGH]"

definition TodoStatus_members :: "TodoStatus list" where
  "TodoStatus_members = [PENDING, IN_PROGRESS, COMPLETED]"

text \<open>
  \<open>xs[start:stop]\<close> with Python's treatment of negative and out-of-range bounds
  (a negative bound counts from the end, every bound is clipped to \<open>0..len\<close>).
\<close>

definition py_slice :: "'a list \<Rightarrow> int \<Rightarrow> int \<Rightarrow> 'a list" where
  "py_slice xs start stop =
     (let n = int (length xs);
          lo = (if start < 0 then max (start + n) 0 else min start n);
          hi = (if stop < 0 then max (stop + n) 0 else min stop n)
      in take (nat (hi - lo)) (drop (nat lo) xs))"

text \<open>
  \<open>str.isspace\<close> on one code point (the code points CPython treats as whitespace) and
  \<open>str.strip()\<close>, which removes them from both ends.
\<close>

definition isspace :: "nat \<Rightarrow> bool" where
  "isspace c = ((9 \<le> c \<and> c \<le> 13) \<or> (28 \<le> c \<and> c \<le> 32) \<or> c = 133 \<or> c = 160
                \<or> c = 5760 \<or> (8192 \<le> c \<and> c \<le> 8202) \<or> c = 8232 \<or> c = 8233
                \<or> c = 8239 \<or> c = 8287 \<or> c = 12288)"

definition strip :: "str \<Rightarrow> str" where
  "strip s = rev (dropWhile isspace (rev (dropWhile isspace s)))"

text \<open>
  \<open>d.get(key, 0)\<close> on a dictionary kept as an association list in insertion order;
  \<open>d[key] = v\<close> is \<open>AList.update\<close>, which overwrites in place or appends a new key.
\<close>

definition dict_get :: "(str \<times> int) list \<Rightarrow> str \<Rightarrow> int \<Rightarrow> int" where
  "dict_get d key dflt = (case map_of d key of None \<Rightarrow> dflt | Some v \<Rightarrow> v)"

text \<open>
  \<open>round(x, 2)\<close>: the nearest multiple of 1/100, ties to the even one. The model computes
  over the rationals, where the source computes over binary floating point.
\<close>

definition py_round2 :: "rat \<Rightarrow> rat" where
  "py_round2 x =
     (let y = x * 100; f = \<lfloor>y\<rfloor>; d = y - of_int f
      in of_int (if d < 1 / 2 then f else if 1 / 2 < d then f + 1
                 else if even f then f else f + 1) / 100)"

section \<open>The data model\<close>

text \<open>
  A stored todo is a dictionary with the eight keys below; \<open>id'\<close> is the key \<open>"id"\<close>.
  \<open>TodoResponse\<close> declares the same eight fields, so \<open>TodoResponse(**todo)\<close> is the
  record itself.
\<close>

record Todo =
  id' :: str
  title :: str
  description :: "str option"
  priority :: TodoPriority
  status :: TodoStatus
  due_date :: "str option"
  created_at :: timestamp
  updated_at :: timestamp

definition TodoResponse :: "Todo \<Rightarrow> Todo" where
  "TodoResponse todo = todo"

text \<open>\<open>class TodoCreate(BaseModel)\<close>: it has no status field.\<close>

record TodoCreate =
  c_title :: str
  c_description :: "str option"
  c_priority :: TodoPriority
  c_due_date :: "str option"

text \<open>
  The constraints of \<open>TodoCreate\<close>:
  \<open>title: Field(..., min_length=1, max_length=100)\<close>,
  \<open>description: Field(None, max_length=500)\<close>. A body that violates them is rejected
  before the handler runs.
\<close>

definition TodoCreate_valid :: "TodoCreate \<Rightarrow> bool" where
  "TodoCreate_valid todo =
     (1 \<le> length (c_title todo) \<and> length (c_title todo) \<le> 100
      \<and> (case c_description todo of None \<Rightarrow> True | Some d \<Rightarrow> length d \<le> 500))"

text \<open>
  \<open>class TodoUpdate(BaseModel)\<close>: every field is optional. A field of a request is
  either not sent at all, or sent as \<open>null\<close>, or sent with a value; \<open>exclude_unset\<close>
  tells the first from the other two.
\<close>

datatype 'a sent = Unset | Sent "'a option"

record TodoUpdate =
  u_title :: "str sent"
  u_description :: "str sent"
  u_priority :: "TodoPriority sent"
  u_status :: "TodoStatus sent"
  u_due_date :: "str sent"

definition TodoUpdate_valid :: "TodoUpdate \<Rightarrow> bool" where
  "TodoUpdate_valid todo_update =
     ((case u_title todo_update of
         Sent (Some s) \<Rightarrow> 1 \<le> length s \<and> length s \<le> 100 | _ \<Rightarrow> True)
      \<and> (case u_description todo_update of
           Sent (Some d) \<Rightarrow> length d \<le> 500 | _ \<Rightarrow> True))"

text \<open>
  The dictionary \<open>model_dump(exclude_unset=True)\<close> returns: the sent fields in
  declaration order, each with its value or \<open>None\<close>.
\<close>

datatype field = F_title | F_description | F_priority | F_status | F_due_date

datatype pyval = PyNone | PyStr str | PyPriority TodoPriority | PyStatus TodoStatus

definition dump_field :: "field \<Rightarrow> ('a \<Rightarrow> pyval) \<Rightarrow> 'a sent \<Rightarrow> (field \<times> pyval) list" where
  "dump_field f wrap x =
     (case x of Unset \<Rightarrow> [] | Sent None \<Rightarrow> [(f, PyNone)] | Sent (Some v) \<Rightarrow> [(f, wrap v)])"

definition model_dump_exclude_unset :: "TodoUpdate \<Rightarrow> (field \<times> pyval) list" where
  "model_dump_exclude_unset todo_update =
     dump_field F_title PyStr (u_title todo_update)
     @ dump_field F_description PyStr (u_description todo_update)
     @ dump_field F_priority PyPriority (u_priority todo_update)
     @ dump_field F_status PyStatus (u_status todo_update)
     @ dump_field F_due_date PyStr (u_due_date todo_update)"

text \<open>The failures a request can end in, by the names of the specification.\<close>

datatype error =
    NotFound                  \<comment> \<open>404, raised by the handlers\<close>
  | ValidationError           \<comment> \<open>422, a request body that violates its model\<close>
  | InvalidArgument           \<comment> \<open>400, raised by the search handler\<close>
  | ResponseValidationError   \<comment> \<open>500, a return value that violates \<open>response_model\<close>\<close>

section \<open>The process state\<close>

text \<open>
  \<open>todos_db\<close> is the module-level list. \<open>uuid4()\<close> and \<open>datetime.now()\<close> read the
  environment: \<open>uuid4_values k\<close> and \<open>clock k\<close> are what the \<open>k\<close>-th call returns, and the
  state counts the calls made so far.
\<close>

record world =
  todos_db :: "Todo list"
  uuid4_values :: "nat \<Rightarrow> str"
  uuid4_calls :: nat
  clock :: "nat \<Rightarrow> timestamp"
  clock_calls :: nat

definition generate_id :: "world \<Rightarrow> str \<times> world" where
  "generate_id w = (uuid4_values w (uuid4_calls w), w\<lparr>uuid4_calls := Suc (uuid4_calls w)\<rparr>)"

definition get_current_timestamp :: "world \<Rightarrow> timestamp \<times> world" where
  "get_current_timestamp w = (clock w (clock_calls w), w\<lparr>clock_calls := Suc (clock_calls w)\<rparr>)"

text \<open>
  \<open>find_todo_by_id\<close> returns a reference to a dictionary inside \<open>todos_db\<close>, through which
  the callers then mutate the list element. The reference is the position of the first
  todo with that id.
\<close>

fun find_todo_by_id :: "str \<Rightarrow> Todo list \<Rightarrow> nat option" where
  "find_todo_by_id todo_id [] = None"
| "find_todo_by_id todo_id (todo # rest) =
     (if id' todo = todo_id then Some 0 else map_option Suc (find_todo_by_id todo_id rest))"

definition ensure_todo_exists :: "str \<Rightarrow> world \<Rightarrow> error + nat" where
  "ensure_todo_exists todo_id w =
     (case find_todo_by_id todo_id (todos_db w) of
        None \<Rightarrow> Inl NotFound
      | Some i \<Rightarrow> Inr i)"

text \<open>
  \<open>todo[field] = value\<close>. The callers only pass values of the field's own type (the dump
  of a \<open>TodoUpdate\<close>, or the literal \<open>{"status": ...}\<close>); the last equation covers the
  pairs that never occur.
\<close>

fun setitem :: "Todo \<Rightarrow> field \<Rightarrow> pyval \<Rightarrow> Todo" where
  "setitem todo F_title (PyStr s) = todo\<lparr>title := s\<rparr>"
| "setitem todo F_description (PyStr s) = todo\<lparr>description := Some s\<rparr>"
| "setitem todo F_priority (PyPriority p) = todo\<lparr>priority := p\<rparr>"
| "setitem todo F_status (PyStatus s) = todo\<lparr>status := s\<rparr>"
| "setitem todo F_due_date (PyStr s) = todo\<lparr>due_date := Some s\<rparr>"
| "setitem todo _ _ = todo"

text \<open>The loop of \<open>safe_todo_update\<close> over \<open>update_data.items()\<close>.\<close>

fun update_items :: "(field \<times> pyval) list \<Rightarrow> Todo \<Rightarrow> Todo" where
  "update_items [] todo = todo"
| "update_items ((f, v) # rest) todo =
     update_items rest (if v \<noteq> PyNone then setitem todo f v else todo)"

definition safe_todo_update :: "nat \<Rightarrow> (field \<times> pyval) list \<Rightarrow> world \<Rightarrow> world" where
  "safe_todo_update i update_data w =
     (let todo = update_items update_data (todos_db w ! i);
          (ts, w') = get_current_timestamp w
      in w'\<lparr>todos_db := (todos_db w')[i := todo\<lparr>updated_at := ts\<rparr>]\<rparr>)"

definition update_todo_fields :: "nat \<Rightarrow> (field \<times> pyval) list \<Rightarrow> world \<Rightarrow> world" where
  "update_todo_fields i update_data w = safe_todo_update i update_data w"

section \<open>Start-up\<close>

text \<open>
  \<open>initialize_sample_data\<close> builds the three sample dictionaries; each reads one id and then
  the clock twice, for \<open>created_at\<close> and for \<open>updated_at\<close>, in the order of the dictionary
  literal. The titles and descriptions are the source's literals, as code points.
\<close>

definition initialize_sample_data :: "world \<Rightarrow> Todo list \<times> world" where
  "initialize_sample_data w0 =
     (let (id1, w1) = generate_id w0;
          (c1, w2) = get_current_timestamp w1;
          (u1, w3) = get_current_timestamp w2;
          (id2, w4) = generate_id w3;
          (c2, w5) = get_current_timestamp w4;
          (u2, w6) = get_current_timestamp w5;
          (id3, w7) = generate_id w6;
          (c3, w8) = get_current_timestamp w7;
          (u3, w9) = get_current_timestamp w8;
          sample_todos =
            [\<lparr>id' = id1,
              title = [23398, 20064] @ ascii ''FastAPI'',
              description = Some [23436, 25104, 31532, 19977, 22825, 30340, 23398, 20064, 20219, 21153],
              priority = HIGH, status = COMPLETED,
              due_date = Some (ascii ''2024-01-01''),
              created_at = c1, updated_at = u1\<rparr>,
             \<lparr>id' = id2,
              title = [32534, 20889] @ ascii ''Todo API'',
              description = Some ([23454, 29616] @ ascii ''CRUD'' @ [25805, 20316]),
              priority = MEDIUM, status = IN_PROGRESS,
              due_date = Some (ascii ''2024-01-02''),
              created_at = c2, updated_at = u2\<rparr>,
             \<lparr>id' = id3,
              title = [23398, 20064, 24322, 27493, 32534, 31243],
              description = Some ([29702, 35299] @ ascii ''async/await'' @ [35821, 27861]),
              priority = LOW, status = PENDING,
              due_date = Some (ascii ''2024-01-03''),
              created_at = c3, updated_at = u3\<rparr>]
      in (sample_todos, w9))"

text \<open>
  Importing the module: \<open>todos_db = []\<close>, then
  \<open>todos_db.extend(initialize_sample_data())\<close>, in an environment that will answer
  \<open>uuid4()\<close> with \<open>uuids\<close> and \<open>datetime.now()\<close> with \<open>clk\<close>.
\<close>

definition startup :: "(nat \<Rightarrow> str) \<Rightarrow> (nat \<Rightarrow> timestamp) \<Rightarrow> world" where
  "startup uuids clk =
     (let w0 = \<lparr>todos_db = [], uuid4_values = uuids, uuid4_calls = 0,
                clock = clk, clock_calls = 0\<rparr>;
          (sample_todos, w1) = initialize_sample_data w0
      in w1\<lparr>todos_db := todos_db w1 @ sample_todos\<rparr>)"

section \<open>The routes\<close>

text \<open>
  A route that can change the state returns its outcome together with the state it
  leaves; a route that only reads \<open>todos_db\<close> takes the list and returns its outcome.
  \<open>if status_filter:\<close> tests an enum member that mixes in \<open>str\<close>; every member's value is
  a non-empty string, so the test is the test for \<open>None\<close>.
\<close>

definition get_all_todos ::
  "int \<Rightarrow> int \<Rightarrow> TodoStatus option \<Rightarrow> TodoPriority option \<Rightarrow> Todo list \<Rightarrow> Todo list" where
  "get_all_todos skip limit status_filter priority_filter db =
     (let filtered_todos = db;
          filtered_todos =
            (case status_filter of None \<Rightarrow> filtered_todos
             | Some s \<Rightarrow> filter (\<lambda>todo. status todo = s) filtered_todos);
          filtered_todos =
            (case priority_filter of None \<Rightarrow> filtered_todos
             | Some p \<Rightarrow> filter (\<lambda>todo. priority todo = p) filtered_todos);
          paginated_todos = py_slice filtered_todos skip (skip + limit)
      in map TodoResponse paginated_todos)"

definition get_todo_by_id :: "str \<Rightarrow> world \<Rightarrow> error + Todo" where
  "get_todo_by_id todo_id w =
     (case ensure_todo_exists todo_id w of
        Inl e \<Rightarrow> Inl e
      | Inr i \<Rightarrow> Inr (TodoResponse (todos_db w ! i)))"

definition create_todo :: "TodoCreate \<Rightarrow> world \<Rightarrow> (error + Todo) \<times> world" where
  "create_todo todo w =
     (if \<not> TodoCreate_valid todo then (Inl ValidationError, w)
      else
        let (new_id, w1) = generate_id w;
            (created, w2) = get_current_timestamp w1;
            (updated, w3) = get_current_timestamp w2;
            new_todo = \<lparr>id' = new_id,
                        title = c_title todo,
                        description = c_description todo,
                        priority = c_priority todo,
                        status = PENDING,
                        due_date = c_due_date todo,
                        created_at = created,
                        updated_at = updated\<rparr>
        in (Inr (TodoResponse new_todo), w3\<lparr>todos_db := todos_db w3 @ [new_todo]\<rparr>))"

definition update_todo :: "str \<Rightarrow> TodoUpdate \<Rightarrow> world \<Rightarrow> (error + Todo) \<times> world" where
  "update_todo todo_id todo_update w =
     (if \<not> TodoUpdate_valid todo_update then (Inl ValidationError, w)
      else
        case ensure_todo_exists todo_id w of
          Inl e \<Rightarrow> (Inl e, w)
        | Inr i \<Rightarrow>
            let update_data = model_dump_exclude_unset todo_update;
                w' = safe_todo_update i update_data w
            in (Inr (TodoResponse (todos_db w' ! i)), w'))"

definition partial_update_todo :: "str \<Rightarrow> TodoUpdate \<Rightarrow> world \<Rightarrow> (error + Todo) \<times> world" where
  "partial_update_todo todo_id todo_update w =
     (if \<not> TodoUpdate_valid todo_update then (Inl ValidationError, w)
      else
        case ensure_todo_exists todo_id w of
          Inl e \<Rightarrow> (Inl e, w)
        | Inr i \<Rightarrow>
            let update_data = model_dump_exclude_unset todo_update;
                w' = safe_todo_update i update_data w
            in (Inr (TodoResponse (todos_db w' ! i)), w'))"

text \<open>
  \<open>delete_todo\<close>: the loop over \<open>enumerate(todos_db)\<close>. \<open>delete_loop\<close> is at position
  \<open>index\<close> with \<open>rest\<close> still to visit; \<open>db\<close> is the whole list, from which
  \<open>todos_db.pop(index)\<close> removes one element. The handler returns inside the loop, so the
  list is not visited after the removal.
\<close>

record DeleteResponse =
  del_message :: str
  deleted_todo :: Todo
  remaining_count :: int

fun delete_loop :: "str \<Rightarrow> nat \<Rightarrow> Todo list \<Rightarrow> Todo list \<Rightarrow> (error + DeleteResponse) \<times> Todo list" where
  "delete_loop todo_id index [] db = (Inl NotFound, db)"
| "delete_loop todo_id index (todo # rest) db =
     (if id' todo = todo_id then
        let deleted = db ! index;
            db' = take index db @ drop (Suc index) db
        in (Inr \<lparr>del_message = [24453, 21150, 20107, 39033, 21024, 38500, 25104, 21151],
                 deleted_todo = deleted,
                 remaining_count = int (length db')\<rparr>, db')
      else delete_loop todo_id (Suc index) rest db)"

definition delete_todo :: "str \<Rightarrow> world \<Rightarrow> (error + DeleteResponse) \<times> world" where
  "delete_todo todo_id w =
     (let (r, db') = delete_loop todo_id 0 (todos_db w) (todos_db w)
      in (r, w\<lparr>todos_db := db'\<rparr>))"

text \<open>
  \<open>get_todo_stats\<close> returns a plain dictionary whose values are, as its annotation says,
  \<open>Union[int, Dict[str, int], float, str]\<close>.
\<close>

datatype stat_value = V_int int | V_dict "(str \<times> int) list" | V_float rat | V_str str

fun count_todos ::
  "Todo list \<Rightarrow> (str \<times> int) list \<Rightarrow> (str \<times> int) list
     \<Rightarrow> (str \<times> int) list \<times> (str \<times> int) list" where
  "count_todos [] by_status by_priority = (by_status, by_priority)"
| "count_todos (todo # rest) by_status by_priority =
     (let status_key = TodoStatus_str (status todo);
          priority_key = TodoPriority_str (priority todo)
      in count_todos rest
           (AList.update status_key (dict_get by_status status_key 0 + 1) by_status)
           (AList.update priority_key (dict_get by_priority priority_key 0 + 1) by_priority))"

definition get_todo_stats :: "Todo list \<Rightarrow> (str \<times> stat_value) list" where
  "get_todo_stats db =
     (let total = int (length db)
      in if total = 0 then
           [(ascii ''total_todos'', V_int 0),
            (ascii ''by_status'', V_dict []),
            (ascii ''by_priority'', V_dict []),
            (ascii ''completion_rate'', V_int 0),
            (ascii ''message'', V_str [26242, 26080, 24453, 21150, 20107, 39033])]
         else
           let by_status = map (\<lambda>s. (TodoStatus_value s, 0)) TodoStatus_members;
               by_priority = map (\<lambda>p. (TodoPriority_value p, 0)) TodoPriority_members;
               (by_status, by_priority) = count_todos db by_status by_priority;
               completed_count = dict_get by_status (TodoStatus_value COMPLETED) 0;
               completion_rate = py_round2 (of_int completed_count / of_int total * 100)
           in [(ascii ''total_todos'', V_int total),
               (ascii ''by_status'', V_dict by_status),
               (ascii ''by_priority'', V_dict by_priority),
               (ascii ''completion_rate'', V_float completion_rate),
               (ascii ''highest_priority_count'',
                  V_int (dict_get by_priority (TodoPriority_value HIGH) 0))])"

text \<open>
  The route is declared with \<open>response_model=StatsResponse\<close>: the dictionary the handler
  returns is validated against the model before it is sent. Every field but \<open>message\<close> is
  required; an \<open>int\<close> is accepted where a \<open>float\<close> is declared.
\<close>

record StatsResponse =
  total_todos :: int
  by_status :: "(str \<times> int) list"
  by_priority :: "(str \<times> int) list"
  completion_rate :: rat
  highest_priority_count :: int
  message :: "str option"

fun as_int :: "stat_value option \<Rightarrow> int option" where
  "as_int (Some (V_int n)) = Some n"
| "as_int _ = None"

fun as_dict :: "stat_value option \<Rightarrow> (str \<times> int) list option" where
  "as_dict (Some (V_dict d)) = Some d"
| "as_dict _ = None"

fun as_float :: "stat_value option \<Rightarrow> rat option" where
  "as_float (Some (V_float x)) = Some x"
| "as_float (Some (V_int n)) = Some (of_int n)"
| "as_float _ = None"

fun as_optional_str :: "stat_value option \<Rightarrow> str option option" where
  "as_optional_str None = Some None"
| "as_optional_str (Some (V_str s)) = Some (Some s)"
| "as_optional_str _ = None"

definition StatsResponse_validate :: "(str \<times> stat_value) list \<Rightarrow> error + StatsResponse" where
  "StatsResponse_validate d =
     (case (as_int (map_of d (ascii ''total_todos'')),
            as_dict (map_of d (ascii ''by_status'')),
            as_dict (map_of d (ascii ''by_priority'')),
            as_float (map_of d (ascii ''completion_rate'')),
            as_int (map_of d (ascii ''highest_priority_count'')),
            as_optional_str (map_of d (ascii ''message''))) of
        (Some t, Some s, Some p, Some c, Some h, Some m) \<Rightarrow>
          Inr \<lparr>total_todos = t, by_status = s, by_priority = p, completion_rate = c,
               highest_priority_count = h, message = m\<rparr>
      | _ \<Rightarrow> Inl ResponseValidationError)"

definition stats_summary :: "Todo list \<Rightarrow> error + StatsResponse" where
  "stats_summary db = StatsResponse_validate (get_todo_stats db)"

text \<open>\<open>mark_todo_complete\<close> and \<open>start_todo\<close>; the message is the f-string around the id.\<close>

record MarkResponse =
  mark_message :: str
  marked_todo :: Todo

definition mark_todo_complete :: "str \<Rightarrow> world \<Rightarrow> (error + MarkResponse) \<times> world" where
  "mark_todo_complete todo_id w =
     (case ensure_todo_exists todo_id w of
        Inl e \<Rightarrow> (Inl e, w)
      | Inr i \<Rightarrow>
          let w' = safe_todo_update i [(F_status, PyStatus COMPLETED)] w
          in (Inr \<lparr>mark_message = [24453, 21150, 20107, 39033, 32] @ todo_id
                                    @ [32, 24050, 26631, 35760, 20026, 23436, 25104],
                   marked_todo = TodoResponse (todos_db w' ! i)\<rparr>, w'))"

definition start_todo :: "str \<Rightarrow> world \<Rightarrow> (error + MarkResponse) \<times> world" where
  "start_todo todo_id w =
     (case ensure_todo_exists todo_id w of
        Inl e \<Rightarrow> (Inl e, w)
      | Inr i \<Rightarrow>
          let w' = safe_todo_update i [(F_status, PyStatus IN_PROGRESS)] w
          in (Inr \<lparr>mark_message = [24453, 21150, 20107, 39033, 32] @ todo_id
                                    @ [32, 24050, 24320, 22987, 22788, 29702],
                   marked_todo = TodoResponse (todos_db w' ! i)\<rparr>, w'))"

text \<open>
  \<open>search_todos\<close>. \<open>needle in haystack\<close> on strings is contiguous containment, that is
  \<open>sublist\<close>. \<open>str.lower\<close> applies Unicode's case mapping, a table that is no part of this
  program: it is the parameter \<open>lower\<close>, and what is proved holds for every such function.
\<close>

fun search_loop :: "(str \<Rightarrow> str) \<Rightarrow> str \<Rightarrow> Todo list \<Rightarrow> Todo list \<Rightarrow> Todo list" where
  "search_loop lower search_term [] results = results"
| "search_loop lower search_term (todo # rest) results =
     (let title_match = sublist search_term (lower (title todo));
          description_match =
            (case description todo of None \<Rightarrow> False
             | Some d \<Rightarrow> sublist search_term (lower d))
      in search_loop lower search_term rest
           (if title_match \<or> description_match then results @ [todo] else results))"

record SearchResponse =
  results :: "Todo list"
  total_found :: int
  search_term :: str

definition search_todos ::
  "(str \<Rightarrow> str) \<Rightarrow> str \<Rightarrow> int \<Rightarrow> int \<Rightarrow> Todo list \<Rightarrow> error + SearchResponse" where
  "search_todos lower q skip limit db =
     (if q = [] \<or> length (strip q) = 0 then Inl InvalidArgument
      else
        let search_term = strip (lower q);
            results = search_loop lower search_term db [];
            paginated_results = py_slice results skip (skip + limit)
        in Inr \<lparr>results = map TodoResponse paginated_results,
                total_found = int (length results),
                search_term = search_term\<rparr>)"

section \<open>Requests and runs\<close>

datatype request =
    Create TodoCreate
  | GetAll int int "TodoStatus option" "TodoPriority option"
  | GetById str
  | Update str TodoUpdate
  | PartialUpdate str TodoUpdate
  | Delete str
  | Stats
  | MarkComplete str
  | MarkInProgress str
  | Search str int int

datatype response =
    R_todo Todo
  | R_todos "Todo list"
  | R_deleted DeleteResponse
  | R_stats StatsResponse
  | R_marked MarkResponse
  | R_search SearchResponse

fun handle :: "(str \<Rightarrow> str) \<Rightarrow> request \<Rightarrow> world \<Rightarrow> (error + response) \<times> world" where
  "handle lower (Create todo) w = apfst (map_sum id R_todo) (create_todo todo w)"
| "handle lower (GetAll skip limit status_filter priority_filter) w =
     (Inr (R_todos (get_all_todos skip limit status_filter priority_filter (todos_db w))), w)"
| "handle lower (GetById todo_id) w = (map_sum id R_todo (get_todo_by_id todo_id w), w)"
| "handle lower (Update todo_id todo_update) w =
     apfst (map_sum id R_todo) (update_todo todo_id todo_update w)"
| "handle lower (PartialUpdate todo_id todo_update) w =
     apfst (map_sum id R_todo) (partial_update_todo todo_id todo_update w)"
| "handle lower (Delete todo_id) w = apfst (map_sum id R_deleted) (delete_todo todo_id w)"
| "handle lower Stats w = (map_sum id R_stats (stats_summary (todos_db w)), w)"
| "handle lower (MarkComplete todo_id) w =
     apfst (map_sum id R_marked) (mark_todo_complete todo_id w)"
| "handle lower (MarkInProgress todo_id) w =
     apfst (map_sum id R_marked) (start_todo todo_id w)"
| "handle lower (Search q skip limit) w =
     (map_sum id R_search (search_todos lower q skip limit (todos_db w)), w)"

text \<open>A run serves the requests one after the other; a failed request does not stop it.\<close>

fun run :: "(str \<Rightarrow> str) \<Rightarrow> request list \<Rightarrow> world \<Rightarrow> world" where
  "run lower [] w = w"
| "run lower (r # rs) w = run lower rs (snd (handle lower r w))"

section \<open>The specification's wording\<close>

text \<open>
  The update of the specification: a field that is sent with a value overwrites the stored
  one; a field that is absent or \<open>null\<close> leaves it as it is.
\<close>

definition overwrite :: "'a sent \<Rightarrow> 'a \<Rightarrow> 'a" where
  "overwrite x old = (case x of Sent (Some v) \<Rightarrow> v | _ \<Rightarrow> old)"

definition overwrite_optional :: "'a sent \<Rightarrow> 'a option \<Rightarrow> 'a option" where
  "overwrite_optional x old = (case x of Sent (Some v) \<Rightarrow> Some v | _ \<Rightarrow> old)"

definition Update_spec :: "TodoUpdate \<Rightarrow> Todo \<Rightarrow> Todo" where
  "Update_spec upd todo =
     todo\<lparr>title := overwrite (u_title upd) (title todo),
          description := overwrite_optional (u_description upd) (description todo),
          priority := overwrite (u_priority upd) (priority todo),
          status := overwrite (u_status upd) (status todo),
          due_date := overwrite_optional (u_due_date upd) (due_date todo)\<rparr>"

text \<open>
  Every update also refreshes \<open>updated_at\<close>: what an update makes of the todo at position
  \<open>i\<close> of the collection.
\<close>

definition Update_result :: "TodoUpdate \<Rightarrow> world \<Rightarrow> nat \<Rightarrow> Todo" where
  "Update_result upd w i =
     (Update_spec upd (todos_db w ! i))\<lparr>updated_at := clock w (clock_calls w)\<rparr>"

text \<open>
  The match of a search: the lowered query is a substring of the lowered title or, if a
  description is present, of the lowered description.
\<close>

definition Search_matches :: "(str \<Rightarrow> str) \<Rightarrow> str \<Rightarrow> Todo \<Rightarrow> bool" where
  "Search_matches lower lowered_query todo =
     (sublist lowered_query (lower (title todo))
      \<or> (case description todo of None \<Rightarrow> False
          | Some d \<Rightarrow> sublist lowered_query (lower d)))"

text \<open>
  The match of a listing: the status is the filter's, if one is given, and the priority is
  the filter's, if one is given.
\<close>

definition List_matches :: "TodoStatus option \<Rightarrow> TodoPriority option \<Rightarrow> Todo \<Rightarrow> bool" where
  "List_matches status_filter priority_filter todo =
     ((case status_filter of None \<Rightarrow> True | Some s \<Rightarrow> status todo = s)
      \<and> (case priority_filter of None \<Rightarrow> True | Some p \<Rightarrow> priority todo = p))"

text \<open>
  The invariant behind the order of the two timestamps: every stored todo was created
  before it was last updated, and last updated before the clock's next reading.
\<close>

definition stamps_ordered :: "world \<Rightarrow> bool" where
  "stamps_ordered w =
     list_all (\<lambda>todo. created_at todo \<le> updated_at todo
                       \<and> updated_at todo \<le> clock w (clock_calls w)) (todos_db w)"

section \<open>An example environment\<close>

text \<open>
  A concrete environment for the evaluations below: ids \<open>todo-0\<close>, \<open>todo-1\<close>, ..., a clock
  that advances by one at every reading, and the case mapping restricted to ASCII.
\<close>

definition example_uuids :: "nat \<Rightarrow> str" where
  "example_uuids k = ascii ''todo-'' @ [48 + k]"

definition example_clock :: "nat \<Rightarrow> timestamp" where
  "example_clock k = 1000 + k"

definition ascii_lower :: "str \<Rightarrow> str" where
  "ascii_lower s = map (\<lambda>c. if 65 \<le> c \<and> c \<le> 90 then c + 32 else c) s"

definition example_world :: world where
  "example_world = startup example_uuids example_clock"

definition example_create :: TodoCreate where
  "example_create = \<lparr>c_title = ascii ''Write tests'', c_description = None,
                      c_priority = MEDIUM, c_due_date = None\<rparr>"

definition example_db4 :: "Todo list" where
  "example_db4 = todos_db example_world @
       [\<lparr>id' = ascii ''todo-3'', title = ascii ''Write tests'', description = None,
          priority = MEDIUM, status = PENDING, due_date = None,
          created_at = 1006, updated_at = 1007\<rparr>]"

definition example_update :: TodoUpdate where
  "example_update = \<lparr>u_title = Sent (Some (ascii ''Ship it'')), u_description = Sent None,
                      u_priority = Unset, u_status = Sent (Some COMPLETED),
                      u_due_date = Unset\<rparr>"

definition example_invalid_create :: TodoCreate where
  "example_invalid_create = \<lparr>c_title = [], c_description = None,
                              c_priority = LOW, c_due_date = None\<rparr>"

section \<open>Slices, lookups and loops\<close>

lemma py_slice_nonneg:
  "0 \<le> skip \<Longrightarrow> 0 \<le> limit \<Longrightarrow>
     py_slice xs skip (skip + limit) = take (nat limit) (drop (nat skip) xs)"
  by (cases "int (length xs) \<le> skip")
     (auto simp: py_slice_def Let_def min_def nat_diff_distrib nat_add_distrib)

lemma find_todo_by_id_None_iff:
  "find_todo_by_id todo_id db = None \<longleftrightarrow> todo_id \<notin> id' ` set db"
  by (induction db) auto

lemma find_todo_by_id_Some:
  "find_todo_by_id todo_id db = Some i \<Longrightarrow>
     i < length db \<and> id' (db ! i) = todo_id \<and> todo_id \<notin> id' ` set (take i db)"
proof (induction db arbitrary: i)
  case Nil
  then show ?case by simp
next
  case (Cons todo rest)
  then show ?case
    by (cases "id' todo = todo_id") (auto simp: nth_Cons')
qed

lemma delete_loop_eq:
  "delete_loop todo_id (length pre) rest (pre @ rest) =
     (case find_todo_by_id todo_id rest of
        None \<Rightarrow> (Inl NotFound, pre @ rest)
      | Some j \<Rightarrow>
          (Inr \<lparr>del_message = [24453, 21150, 20107, 39033, 21024, 38500, 25104, 21151],
                deleted_todo = rest ! j,
                remaining_count = int (length (pre @ rest)) - 1\<rparr>,
           pre @ take j rest @ drop (Suc j) rest))"
proof (induction rest arbitrary: pre)
  case Nil
  then show ?case by simp
next
  case (Cons todo rest)
  show ?case
  proof (cases "id' todo = todo_id")
    case True
    then show ?thesis by (simp add: Let_def)
  next
    case False
    have "delete_loop todo_id (length (pre @ [todo])) rest ((pre @ [todo]) @ rest) =
            (case find_todo_by_id todo_id rest of
               None \<Rightarrow> (Inl NotFound, (pre @ [todo]) @ rest)
             | Some j \<Rightarrow>
                 (Inr \<lparr>del_message = [24453, 21150, 20107, 39033, 21024, 38500, 25104, 21151],
                       deleted_todo = rest ! j,
                       remaining_count = int (length ((pre @ [todo]) @ rest)) - 1\<rparr>,
                  (pre @ [todo]) @ take j rest @ drop (Suc j) rest))"
      by (rule Cons.IH)
    with False show ?thesis
      by (simp split: option.splits)
  qed
qed

lemma strip_Nil_iff: "strip q = [] \<longleftrightarrow> list_all isspace q"
proof
  assume "strip q = []"
  then have "dropWhile isspace (rev (dropWhile isspace q)) = []"
    by (simp add: strip_def)
  then have "\<forall>c \<in> set (dropWhile isspace q). isspace c"
    by simp
  moreover have "\<forall>c \<in> set (takeWhile isspace q). isspace c"
    by (auto dest: set_takeWhileD)
  moreover have "set q = set (takeWhile isspace q) \<union> set (dropWhile isspace q)"
    by (metis set_append takeWhile_dropWhile_id)
  ultimately show "list_all isspace q"
    by (auto simp: list_all_iff)
next
  assume "list_all isspace q"
  then have "dropWhile isspace q = []"
    by (simp add: list_all_iff)
  then show "strip q = []"
    unfolding strip_def by (simp only: rev.simps dropWhile.simps)
qed

lemma search_guard: "(q = [] \<or> length (strip q) = 0) \<longleftrightarrow> strip q = []"
  by (auto simp: strip_def)

lemma update_items_append:
  "update_items (xs @ ys) todo = update_items ys (update_items xs todo)"
  by (induction xs arbitrary: todo) auto

lemma update_items_title:
  "update_items (dump_field F_title PyStr x) todo = todo\<lparr>title := overwrite x (title todo)\<rparr>"
  by (cases x rule: sent.exhaust; simp add: dump_field_def overwrite_def split: option.splits)

lemma update_items_description:
  "update_items (dump_field F_description PyStr x) todo =
     todo\<lparr>description := overwrite_optional x (description todo)\<rparr>"
  by (cases x rule: sent.exhaust; simp add: dump_field_def overwrite_optional_def split: option.splits)

lemma update_items_priority:
  "update_items (dump_field F_priority PyPriority x) todo =
     todo\<lparr>priority := overwrite x (priority todo)\<rparr>"
  by (cases x rule: sent.exhaust; simp add: dump_field_def overwrite_def split: option.splits)

lemma update_items_status:
  "update_items (dump_field F_status PyStatus x) todo =
     todo\<lparr>status := overwrite x (status todo)\<rparr>"
  by (cases x rule: sent.exhaust; simp add: dump_field_def overwrite_def split: option.splits)

lemma update_items_due_date:
  "update_items (dump_field F_due_date PyStr x) todo =
     todo\<lparr>due_date := overwrite_optional x (due_date todo)\<rparr>"
  by (cases x rule: sent.exhaust; simp add: dump_field_def overwrite_optional_def split: option.splits)

lemma update_items_model_dump:
  "update_items (model_dump_exclude_unset upd) todo = Update_spec upd todo"
  by (simp add: model_dump_exclude_unset_def update_items_append update_items_title
      update_items_description update_items_priority update_items_status
      update_items_due_date Update_spec_def)

lemma search_loop_filter:
  "search_loop lower t db acc = acc @ filter (Search_matches lower t) db"
  by (induction db arbitrary: acc) (auto simp: Search_matches_def Let_def)

lemma str_value_differ:
  "TodoStatus_str s \<noteq> TodoStatus_value s'" "TodoPriority_str p \<noteq> TodoPriority_value p'"
  by (cases s; cases s'; simp add: ascii_def) (cases p; cases p'; simp add: ascii_def)

lemma dict_get_update_other:
  "k \<noteq> k' \<Longrightarrow> dict_get (AList.update k v d) k' dflt = dict_get d k' dflt"
  by (simp add: dict_get_def update_conv')

lemma count_todos_value_keys:
  "dict_get (fst (count_todos db bs bp)) (TodoStatus_value s) 0 = dict_get bs (TodoStatus_value s) 0
   \<and> dict_get (snd (count_todos db bs bp)) (TodoPriority_value p) 0 = dict_get bp (TodoPriority_value p) 0"
  by (induction db arbitrary: bs bp) (simp_all add: Let_def dict_get_update_other str_value_differ)

lemma py_round2_0: "py_round2 0 = 0"
  by (simp add: py_round2_def)

section \<open>What each route computes\<close>

lemma safe_todo_update_eq:
  "safe_todo_update i update_data w =
     w\<lparr>clock_calls := Suc (clock_calls w),
       todos_db := (todos_db w)
         [i := (update_items update_data (todos_db w ! i))\<lparr>updated_at := clock w (clock_calls w)\<rparr>]\<rparr>"
  by (simp add: safe_todo_update_def get_current_timestamp_def Let_def)

lemma update_todo_eq:
  assumes "TodoUpdate_valid upd"
  shows "update_todo todo_id upd w =
     (case find_todo_by_id todo_id (todos_db w) of
        None \<Rightarrow> (Inl NotFound, w)
      | Some i \<Rightarrow>
          (Inr (Update_result upd w i),
           w\<lparr>clock_calls := Suc (clock_calls w),
             todos_db := (todos_db w)[i := Update_result upd w i]\<rparr>))"
proof (cases "find_todo_by_id todo_id (todos_db w)")
  case None
  with assms show ?thesis
    by (simp add: update_todo_def ensure_todo_exists_def)
next
  case (Some i)
  then have "i < length (todos_db w)"
    by (simp add: find_todo_by_id_Some)
  with assms Some show ?thesis
    by (simp add: update_todo_def ensure_todo_exists_def safe_todo_update_eq Let_def
        update_items_model_dump Update_result_def TodoResponse_def)
qed

lemma update_todo_invalid:
  "\<not> TodoUpdate_valid upd \<Longrightarrow> update_todo todo_id upd w = (Inl ValidationError, w)"
  by (simp add: update_todo_def)

lemma put_is_patch: "update_todo todo_id upd w = partial_update_todo todo_id upd w"
  by (simp add: update_todo_def partial_update_todo_def)

lemma create_todo_eq:
  assumes "TodoCreate_valid todo"
  shows "create_todo todo w =
     (Inr \<lparr>id' = uuid4_values w (uuid4_calls w),
           title = c_title todo, description = c_description todo,
           priority = c_priority todo, status = PENDING, due_date = c_due_date todo,
           created_at = clock w (clock_calls w),
           updated_at = clock w (Suc (clock_calls w))\<rparr>,
      w\<lparr>uuid4_calls := Suc (uuid4_calls w),
        clock_calls := Suc (Suc (clock_calls w)),
        todos_db := todos_db w @
          [\<lparr>id' = uuid4_values w (uuid4_calls w),
            title = c_title todo, description = c_description todo,
            priority = c_priority todo, status = PENDING, due_date = c_due_date todo,
            created_at = clock w (clock_calls w),
            updated_at = clock w (Suc (clock_calls w))\<rparr>]\<rparr>)"
  using assms
  by (simp add: create_todo_def generate_id_def get_current_timestamp_def TodoResponse_def Let_def)

lemma delete_todo_eq:
  "delete_todo todo_id w =
     (case find_todo_by_id todo_id (todos_db w) of
        None \<Rightarrow> (Inl NotFound, w)
      | Some i \<Rightarrow>
          (Inr \<lparr>del_message = [24453, 21150, 20107, 39033, 21024, 38500, 25104, 21151],
                deleted_todo = todos_db w ! i,
                remaining_count = int (length (todos_db w)) - 1\<rparr>,
           w\<lparr>todos_db := take i (todos_db w) @ drop (Suc i) (todos_db w)\<rparr>))"
  using delete_loop_eq [of todo_id "[]" "todos_db w"]
  by (simp add: delete_todo_def split: option.splits)

lemma mark_todo_complete_eq:
  "mark_todo_complete todo_id w =
     (case find_todo_by_id todo_id (todos_db w) of
        None \<Rightarrow> (Inl NotFound, w)
      | Some i \<Rightarrow>
          (Inr \<lparr>mark_message = [24453, 21150, 20107, 39033, 32] @ todo_id
                                  @ [32, 24050, 26631, 35760, 20026, 23436, 25104],
                marked_todo = (todos_db w ! i)\<lparr>status := COMPLETED,
                                 updated_at := clock w (clock_calls w)\<rparr>\<rparr>,
           w\<lparr>clock_calls := Suc (clock_calls w),
             todos_db := (todos_db w)[i := (todos_db w ! i)\<lparr>status := COMPLETED,
                                 updated_at := clock w (clock_calls w)\<rparr>]\<rparr>))"
proof (cases "find_todo_by_id todo_id (todos_db w)")
  case None
  then show ?thesis
    by (simp add: mark_todo_complete_def ensure_todo_exists_def)
next
  case (Some i)
  then have "i < length (todos_db w)"
    by (simp add: find_todo_by_id_Some)
  with Some show ?thesis
    by (simp add: mark_todo_complete_def ensure_todo_exists_def safe_todo_update_eq Let_def
        TodoResponse_def)
qed

lemma start_todo_eq:
  "start_todo todo_id w =
     (case find_todo_by_id todo_id (todos_db w) of
        None \<Rightarrow> (Inl NotFound, w)
      | Some i \<Rightarrow>
          (Inr \<lparr>mark_message = [24453, 21150, 20107, 39033, 32] @ todo_id
                                  @ [32, 24050, 24320, 22987, 22788, 29702],
                marked_todo = (todos_db w ! i)\<lparr>status := IN_PROGRESS,
                                 updated_at := clock w (clock_calls w)\<rparr>\<rparr>,
           w\<lparr>clock_calls := Suc (clock_calls w),
             todos_db := (todos_db w)[i := (todos_db w ! i)\<lparr>status := IN_PROGRESS,
                                 updated_at := clock w (clock_calls w)\<rparr>]\<rparr>))"
proof (cases "find_todo_by_id todo_id (todos_db w)")
  case None
  then show ?thesis
    by (simp add: start_todo_def ensure_todo_exists_def)
next
  case (Some i)
  then have "i < length (todos_db w)"
    by (simp add: find_todo_by_id_Some)
  with Some show ?thesis
    by (simp add: start_todo_def ensure_todo_exists_def safe_todo_update_eq Let_def
        TodoResponse_def)
qed

section \<open>The example environment, evaluated\<close>

lemma example_world_eq:
  "example_world =
     \<lparr>todos_db =
        [\<lparr>id' = ascii ''todo-0'',
          title = [23398, 20064] @ ascii ''FastAPI'',
          description = Some [23436, 25104, 31532, 19977, 22825, 30340, 23398, 20064, 20219, 21153],
          priority = HIGH, status = COMPLETED,
          due_date = Some (ascii ''2024-01-01''),
          created_at = 1000, updated_at = 1001\<rparr>,
         \<lparr>id' = ascii ''todo-1'',
          title = [32534, 20889] @ ascii ''Todo API'',
          description = Some ([23454, 29616] @ ascii ''CRUD'' @ [25805, 20316]),
          priority = MEDIUM, status = IN_PROGRESS,
          due_date = Some (ascii ''2024-01-02''),
          created_at = 1002, updated_at = 1003\<rparr>,
         \<lparr>id' = ascii ''todo-2'',
          title = [23398, 20064, 24322, 27493, 32534, 31243],
          description = Some ([29702, 35299] @ ascii ''async/await'' @ [35821, 27861]),
          priority = LOW, status = PENDING,
          due_date = Some (ascii ''2024-01-03''),
          created_at = 1004, updated_at = 1005\<rparr>],
      uuid4_values = example_uuids, uuid4_calls = 3,
      clock = example_clock, clock_calls = 6\<rparr>"
  by (simp add: example_world_def startup_def initialize_sample_data_def generate_id_def
      get_current_timestamp_def example_uuids_def example_clock_def ascii_def)

lemma stats_summary_nonempty:
  assumes "db \<noteq> []"
  shows "stats_summary db =
     Inr \<lparr>total_todos = int (length db),
          by_status = fst (count_todos db (map (\<lambda>s. (TodoStatus_value s, 0)) TodoStatus_members)
                             (map (\<lambda>p. (TodoPriority_value p, 0)) TodoPriority_members)),
          by_priority = snd (count_todos db (map (\<lambda>s. (TodoStatus_value s, 0)) TodoStatus_members)
                             (map (\<lambda>p. (TodoPriority_value p, 0)) TodoPriority_members)),
          completion_rate = 0, highest_priority_count = 0, message = None\<rparr>"
proof -
  let ?bs = "map (\<lambda>s. (TodoStatus_value s, 0)) TodoStatus_members"
  let ?bp = "map (\<lambda>p. (TodoPriority_value p, 0)) TodoPriority_members"
  have c: "dict_get (fst (count_todos db ?bs ?bp)) (TodoStatus_value COMPLETED) 0 = 0"
    using count_todos_value_keys [of db ?bs ?bp COMPLETED]
    by (simp add: dict_get_def TodoStatus_members_def ascii_def)
  have h: "dict_get (snd (count_todos db ?bs ?bp)) (TodoPriority_value HIGH) 0 = 0"
    using count_todos_value_keys [of db ?bs ?bp _ HIGH]
    by (simp add: dict_get_def TodoPriority_members_def ascii_def)
  have g: "get_todo_stats db =
     [(ascii ''total_todos'', V_int (int (length db))),
      (ascii ''by_status'', V_dict (fst (count_todos db ?bs ?bp))),
      (ascii ''by_priority'', V_dict (snd (count_todos db ?bs ?bp))),
      (ascii ''completion_rate'', V_float 0),
      (ascii ''highest_priority_count'', V_int 0)]"
    using assms c h
    by (simp add: get_todo_stats_def Let_def split_beta py_round2_0)
  show ?thesis
    unfolding stats_summary_def g
    by (simp add: StatsResponse_validate_def ascii_def)
qed

lemma stats_empty:
  "get_todo_stats [] =
     [(ascii ''total_todos'', V_int 0),
      (ascii ''by_status'', V_dict []),
      (ascii ''by_priority'', V_dict []),
      (ascii ''completion_rate'', V_int 0),
      (ascii ''message'', V_str [26242, 26080, 24453, 21150, 20107, 39033])]
   \<and> map_of (get_todo_stats []) (ascii ''highest_priority_count'') = None
   \<and> stats_summary [] = Inl ResponseValidationError"
  by (simp add: get_todo_stats_def stats_summary_def StatsResponse_validate_def ascii_def)

lemma example_deletes_all:
  "todos_db (run ascii_lower [Delete (ascii ''todo-0''), Delete (ascii ''todo-1''),
                              Delete (ascii ''todo-2'')] example_world) = []"
  by (simp add: example_world_eq delete_todo_eq ascii_def)

lemma create_example:
  "create_todo example_create example_world =
     (Inr \<lparr>id' = ascii ''todo-3'', title = ascii ''Write tests'', description = None,
          priority = MEDIUM, status = PENDING, due_date = None,
          created_at = 1006, updated_at = 1007\<rparr>,
      example_world\<lparr>uuid4_calls := 4, clock_calls := 8, todos_db := example_db4\<rparr>)"
proof -
  have v: "TodoCreate_valid example_create"
    by (simp add: example_create_def TodoCreate_valid_def ascii_def)
  have u: "uuid4_values example_world (uuid4_calls example_world) = ascii ''todo-3''"
    by (simp add: example_world_eq example_uuids_def ascii_def)
  have c: "clock example_world (clock_calls example_world) = 1006"
    "clock example_world (Suc (clock_calls example_world)) = 1007"
    by (simp_all add: example_world_eq example_clock_def)
  have n: "Suc (uuid4_calls example_world) = 4" "Suc (Suc (clock_calls example_world)) = 8"
    by (simp_all add: example_world_eq)
  show ?thesis
    unfolding create_todo_eq [OF v] u c n example_db4_def
    by (simp add: example_create_def)
qed

lemma example_db4_eq:
  "example_db4 =
        [\<lparr>id' = ascii ''todo-0'',
          title = [23398, 20064] @ ascii ''FastAPI'',
          description = Some [23436, 25104, 31532, 19977, 22825, 30340, 23398, 20064, 20219, 21153],
          priority = HIGH, status = COMPLETED,
          due_date = Some (ascii ''2024-01-01''),
          created_at = 1000, updated_at = 1001\<rparr>,
         \<lparr>id' = ascii ''todo-1'',
          title = [32534, 20889] @ ascii ''Todo API'',
          description = Some ([23454, 29616] @ ascii ''CRUD'' @ [25805, 20316]),
          priority = MEDIUM, status = IN_PROGRESS,
          due_date = Some (ascii ''2024-01-02''),
          created_at = 1002, updated_at = 1003\<rparr>,
         \<lparr>id' = ascii ''todo-2'',
          title = [23398, 20064, 24322, 27493, 32534, 31243],
          description = Some ([29702, 35299] @ ascii ''async/await'' @ [35821, 27861]),
          priority = LOW, status = PENDING,
          due_date = Some (ascii ''2024-01-03''),
          created_at = 1004, updated_at = 1005\<rparr>,
         \<lparr>id' = ascii ''todo-3'', title = ascii ''Write tests'', description = None,
          priority = MEDIUM, status = PENDING, due_date = None,
          created_at = 1006, updated_at = 1007\<rparr>]"
  unfolding example_db4_def example_world_eq by simp

lemma count_todos_Cons:
  "count_todos (todo # rest) bs bp =
     count_todos rest
       (AList.update (TodoStatus_str (status todo)) (dict_get bs (TodoStatus_str (status todo)) 0 + 1) bs)
       (AList.update (TodoPriority_str (priority todo)) (dict_get bp (TodoPriority_str (priority todo)) 0 + 1) bp)"
  by (simp add: Let_def)

lemma count4:
  "count_todos example_db4
      [(ascii ''pending'', 0), (ascii ''in_progress'', 0), (ascii ''completed'', 0)]
      [(ascii ''low'', 0), (ascii ''medium'', 0), (ascii ''high'', 0)] =
     ([(ascii ''pending'', 0), (ascii ''in_progress'', 0), (ascii ''completed'', 0),
                       (ascii ''TodoStatus.COMPLETED'', 1), (ascii ''TodoStatus.IN_PROGRESS'', 1),
                       (ascii ''TodoStatus.PENDING'', 2)],
      [(ascii ''low'', 0), (ascii ''medium'', 0), (ascii ''high'', 0),
                       (ascii ''TodoPriority.HIGH'', 1), (ascii ''TodoPriority.MEDIUM'', 2),
                       (ascii ''TodoPriority.LOW'', 1)])"
  unfolding example_db4_eq
  by (simp add: dict_get_def ascii_def count_todos_Cons del: count_todos.simps(2))

section \<open>The statistics route\<close>

text \<open>
  Claim C1: for the empty collection the statistics are a summary with \<open>total_todos = 0\<close>,
  empty breakdowns, \<open>completion_rate = 0\<close> and a message, and the route succeeds on every
  collection. The handler does return that dictionary, but the dictionary has no key
  \<open>highest_priority_count\<close>, a required field of \<open>StatsResponse\<close>: the validation against
  the response model rejects it, so on the empty collection the route fails. The empty
  collection is what three deletions leave of the seeded store.
\<close>

theorem stats_summary_empty_store_fails:
  "get_todo_stats [] =
     [(ascii ''total_todos'', V_int 0),
      (ascii ''by_status'', V_dict []),
      (ascii ''by_priority'', V_dict []),
      (ascii ''completion_rate'', V_int 0),
      (ascii ''message'', V_str [26242, 26080, 24453, 21150, 20107, 39033])]
   \<and> map_of (get_todo_stats []) (ascii ''highest_priority_count'') = None
   \<and> stats_summary [] = Inl ResponseValidationError
   \<and> todos_db (run ascii_lower [Delete (ascii ''todo-0''), Delete (ascii ''todo-1''),
                                Delete (ascii ''todo-2'')] example_world) = []
   \<and> fst (handle ascii_lower Stats
            (run ascii_lower [Delete (ascii ''todo-0''), Delete (ascii ''todo-1''),
                              Delete (ascii ''todo-2'')] example_world))
       = Inl ResponseValidationError"
proof -
  note s1 = stats_empty [THEN conjunct1]
  note s2 = stats_empty [THEN conjunct2, THEN conjunct1]
  note s3 = stats_empty [THEN conjunct2, THEN conjunct2]
  note d = example_deletes_all
  have h: "fst (handle ascii_lower Stats
            (run ascii_lower [Delete (ascii ''todo-0''), Delete (ascii ''todo-1''),
                              Delete (ascii ''todo-2'')] example_world))
       = Inl ResponseValidationError"
    unfolding handle.simps d s3 by simp
  show ?thesis
    by (intro conjI s1 s2 s3 d h)
qed

text \<open>
  Claim C5: on a non-empty collection \<open>completion_rate\<close> is the share of completed todos in
  percent, \<open>highest_priority_count\<close> counts the todos of priority high, and four todos with
  one completed give 25.0. The loop counts under the key \<open>str(todo["status"])\<close>, which is
  \<open>'TodoStatus.COMPLETED'\<close>, while the zero entries and the two final look-ups use the key
  \<open>'completed'\<close> (the member's value): the counts land under keys of their own and the
  look-ups read 0. On the seeded store plus one created todo (four todos, one completed,
  one of priority high) the route answers \<open>completion_rate = 0\<close> and
  \<open>highest_priority_count = 0\<close>.
\<close>

theorem stats_summary_four_todos_one_completed:
  "todos_db (snd (create_todo example_create example_world)) = example_db4
   \<and> length example_db4 = 4
   \<and> length (filter (\<lambda>todo. status todo = COMPLETED) example_db4) = 1
   \<and> length (filter (\<lambda>todo. priority todo = HIGH) example_db4) = 1
   \<and> stats_summary example_db4 =
       Inr \<lparr>total_todos = 4,
            by_status = [(ascii ''pending'', 0), (ascii ''in_progress'', 0),
                         (ascii ''completed'', 0), (ascii ''TodoStatus.COMPLETED'', 1),
                         (ascii ''TodoStatus.IN_PROGRESS'', 1), (ascii ''TodoStatus.PENDING'', 2)],
            by_priority = [(ascii ''low'', 0), (ascii ''medium'', 0), (ascii ''high'', 0),
                           (ascii ''TodoPriority.HIGH'', 1), (ascii ''TodoPriority.MEDIUM'', 2),
                           (ascii ''TodoPriority.LOW'', 1)],
            completion_rate = 0, highest_priority_count = 0, message = None\<rparr>"
proof -
  have a: "todos_db (snd (create_todo example_create example_world)) = example_db4"
    by (simp add: create_example)
  have b: "length example_db4 = 4"
    "length (filter (\<lambda>todo. status todo = COMPLETED) example_db4) = 1"
    "length (filter (\<lambda>todo. priority todo = HIGH) example_db4) = 1"
    unfolding example_db4_eq by simp_all
  have n: "example_db4 \<noteq> []"
    unfolding example_db4_eq by simp
  have c: "stats_summary example_db4 =
       Inr \<lparr>total_todos = 4,
            by_status = [(ascii ''pending'', 0), (ascii ''in_progress'', 0),
                         (ascii ''completed'', 0), (ascii ''TodoStatus.COMPLETED'', 1),
                         (ascii ''TodoStatus.IN_PROGRESS'', 1), (ascii ''TodoStatus.PENDING'', 2)],
            by_priority = [(ascii ''low'', 0), (ascii ''medium'', 0), (ascii ''high'', 0),
                           (ascii ''TodoPriority.HIGH'', 1), (ascii ''TodoPriority.MEDIUM'', 2),
                           (ascii ''TodoPriority.LOW'', 1)],
            completion_rate = 0, highest_priority_count = 0, message = None\<rparr>"
    unfolding stats_summary_nonempty [OF n]
    by (simp add: TodoStatus_members_def TodoPriority_members_def count4 b)
  from a b c show ?thesis by simp
qed

lemma find_example:
  "find_todo_by_id (ascii ''todo-0'') (todos_db example_world) = Some 0"
  "find_todo_by_id (ascii ''todo-1'') (todos_db example_world) = Some 1"
  "find_todo_by_id (ascii ''todo-2'') (todos_db example_world) = Some 2"
  "find_todo_by_id (ascii ''todo-9'') (todos_db example_world) = None"
  by (simp_all add: example_world_eq ascii_def)

lemma remove_first_distinct:
  "distinct (map id' db) \<Longrightarrow> find_todo_by_id todo_id db = Some i \<Longrightarrow>
     take i db @ drop (Suc i) db = filter (\<lambda>todo. id' todo \<noteq> todo_id) db"
proof (induction db arbitrary: i)
  case Nil
  then show ?case by simp
next
  case (Cons todo rest)
  show ?case
  proof (cases "id' todo = todo_id")
    case True
    with Cons.prems have "i = 0" and "todo_id \<notin> id' ` set rest"
      by auto
    then have "filter (\<lambda>t. id' t \<noteq> todo_id) rest = rest"
      by (auto simp: filter_id_conv)
    with True \<open>i = 0\<close> show ?thesis by simp
  next
    case False
    with Cons.prems obtain j where j: "find_todo_by_id todo_id rest = Some j" "i = Suc j"
      by auto
    with Cons.IH [of j] Cons.prems(1) False show ?thesis by simp
  qed
qed

lemma get_todo_by_id_eq:
  "get_todo_by_id todo_id w =
     (case find_todo_by_id todo_id (todos_db w) of
        None \<Rightarrow> Inl NotFound | Some i \<Rightarrow> Inr (todos_db w ! i))"
  by (simp add: get_todo_by_id_def ensure_todo_exists_def TodoResponse_def split: option.splits)

section \<open>Create\<close>

text \<open>
  Claim C2, as amended: for every valid input, \<open>create_todo\<close> returns a todo whose id is the
  value \<open>uuid4()\<close> gave, whose title, description, priority and due date are the caller's,
  whose status is \<open>pending\<close> (a \<open>TodoCreate\<close> has no status field, so nothing the caller
  sends reaches it), and whose \<open>created_at\<close> and \<open>updated_at\<close> are two successive readings
  of the clock, in this order; the todo is appended at the end of the collection, and a
  fresh id keeps the ids distinct.
\<close>

theorem create_todo_appends_pending:
  assumes "TodoCreate_valid todo"
  shows "create_todo todo w =
     (Inr \<lparr>id' = uuid4_values w (uuid4_calls w),
           title = c_title todo, description = c_description todo,
           priority = c_priority todo, status = PENDING, due_date = c_due_date todo,
           created_at = clock w (clock_calls w),
           updated_at = clock w (Suc (clock_calls w))\<rparr>,
      w\<lparr>uuid4_calls := Suc (uuid4_calls w),
        clock_calls := Suc (Suc (clock_calls w)),
        todos_db := todos_db w @
          [\<lparr>id' = uuid4_values w (uuid4_calls w),
            title = c_title todo, description = c_description todo,
            priority = c_priority todo, status = PENDING, due_date = c_due_date todo,
            created_at = clock w (clock_calls w),
            updated_at = clock w (Suc (clock_calls w))\<rparr>]\<rparr>)
   \<and> (distinct (map id' (todos_db w)) \<and> uuid4_values w (uuid4_calls w) \<notin> id' ` set (todos_db w)
        \<longrightarrow> distinct (map id' (todos_db (snd (create_todo todo w)))))"
  using assms by (simp add: create_todo_eq)

theorem create_todo_appends_pending_witness:
  "TodoCreate_valid example_create
   \<and> distinct (map id' (todos_db example_world))
   \<and> uuid4_values example_world (uuid4_calls example_world) \<notin> id' ` set (todos_db example_world)
   \<and> fst (create_todo example_create example_world) =
       Inr \<lparr>id' = ascii ''todo-3'', title = ascii ''Write tests'', description = None,
            priority = MEDIUM, status = PENDING, due_date = None,
            created_at = 1006, updated_at = 1007\<rparr>
   \<and> todos_db (snd (create_todo example_create example_world)) =
       todos_db example_world @
         [\<lparr>id' = ascii ''todo-3'', title = ascii ''Write tests'', description = None,
            priority = MEDIUM, status = PENDING, due_date = None,
            created_at = 1006, updated_at = 1007\<rparr>]
   \<and> distinct (map id' (todos_db (snd (create_todo example_create example_world))))"
proof -
  have v: "TodoCreate_valid example_create"
    by (simp add: example_create_def TodoCreate_valid_def ascii_def)
  have d: "distinct (map id' (todos_db example_world))"
    by (simp add: example_world_eq ascii_def)
  have f: "uuid4_values example_world (uuid4_calls example_world)
             \<notin> id' ` set (todos_db example_world)"
    by (simp add: example_world_eq example_uuids_def ascii_def)
  note t = create_todo_appends_pending [OF v, of example_world]
  have u: "uuid4_values example_world (uuid4_calls example_world) = ascii ''todo-3''"
    by (simp add: example_world_eq example_uuids_def ascii_def)
  have c: "clock example_world (clock_calls example_world) = 1006"
    "clock example_world (Suc (clock_calls example_world)) = 1007"
    by (simp_all add: example_world_eq example_clock_def)
  have e: "c_title example_create = ascii ''Write tests''" "c_description example_create = None"
    "c_priority example_create = MEDIUM" "c_due_date example_create = None"
    by (simp_all add: example_create_def)
  have r: "fst (create_todo example_create example_world) =
       Inr \<lparr>id' = ascii ''todo-3'', title = ascii ''Write tests'', description = None,
            priority = MEDIUM, status = PENDING, due_date = None,
            created_at = 1006, updated_at = 1007\<rparr>"
    using t [THEN conjunct1] unfolding u c e by simp
  have s: "todos_db (snd (create_todo example_create example_world)) =
       todos_db example_world @
         [\<lparr>id' = ascii ''todo-3'', title = ascii ''Write tests'', description = None,
            priority = MEDIUM, status = PENDING, due_date = None,
            created_at = 1006, updated_at = 1007\<rparr>]"
    using t [THEN conjunct1] unfolding u c e by simp
  have k: "distinct (map id' (todos_db (snd (create_todo example_create example_world))))"
    using t [THEN conjunct2] d f by blast
  show ?thesis
    by (intro conjI v d f r s k)
qed

text \<open>
  Claim C2 as stated says \<open>created_at = updated_at\<close>. With a clock that advances between
  two readings the created todo has \<open>created_at = 1006\<close> and \<open>updated_at = 1007\<close>.
\<close>

theorem create_todo_timestamps_differ:
  "TodoCreate_valid example_create
   \<and> map_sum id created_at (fst (create_todo example_create example_world)) = Inr 1006
   \<and> map_sum id updated_at (fst (create_todo example_create example_world)) = Inr 1007
   \<and> map_sum id created_at (fst (create_todo example_create example_world))
       \<noteq> map_sum id updated_at (fst (create_todo example_create example_world))"
proof -
  have v: "TodoCreate_valid example_create"
    by (simp add: example_create_def TodoCreate_valid_def ascii_def)
  show ?thesis
    using v by (simp add: create_example)
qed

section \<open>Update and partial update\<close>

text \<open>
  Claim C3: \<open>update_todo\<close> (PUT) and \<open>partial_update_todo\<close> (PATCH) are the same function of
  id, update and state. For a valid update both fail with \<open>NotFound\<close> exactly when no todo
  has the id, leaving the state as it was; otherwise they replace the first todo with that
  id by \<open>Update_result\<close>: the fields sent with a value are overwritten, the fields absent or
  \<open>null\<close> are kept, \<open>updated_at\<close> is the clock's reading whether or not a field was sent,
  and nothing else in the collection changes.
\<close>

theorem update_and_partial_update_agree:
  "update_todo todo_id upd w = partial_update_todo todo_id upd w
   \<and> (TodoUpdate_valid upd \<longrightarrow>
        update_todo todo_id upd w =
          (case find_todo_by_id todo_id (todos_db w) of
             None \<Rightarrow> (Inl NotFound, w)
           | Some i \<Rightarrow>
               (Inr (Update_result upd w i),
                w\<lparr>clock_calls := Suc (clock_calls w),
                  todos_db := (todos_db w)[i := Update_result upd w i]\<rparr>)))
   \<and> (find_todo_by_id todo_id (todos_db w) = None \<longleftrightarrow> todo_id \<notin> id' ` set (todos_db w))
   \<and> (\<forall>i. find_todo_by_id todo_id (todos_db w) = Some i \<longrightarrow>
          i < length (todos_db w) \<and> id' (todos_db w ! i) = todo_id
          \<and> todo_id \<notin> id' ` set (take i (todos_db w)))"
  using put_is_patch update_todo_eq find_todo_by_id_None_iff find_todo_by_id_Some
  by blast

theorem update_and_partial_update_agree_witness:
  "TodoUpdate_valid example_update
   \<and> update_todo (ascii ''todo-1'') example_update example_world =
       (Inr \<lparr>id' = ascii ''todo-1'', title = ascii ''Ship it'',
             description = Some ([23454, 29616] @ ascii ''CRUD'' @ [25805, 20316]),
             priority = MEDIUM, status = COMPLETED,
             due_date = Some (ascii ''2024-01-02''),
             created_at = 1002, updated_at = 1006\<rparr>,
        example_world\<lparr>clock_calls := 7,
          todos_db := (todos_db example_world)
            [1 := \<lparr>id' = ascii ''todo-1'', title = ascii ''Ship it'',
                   description = Some ([23454, 29616] @ ascii ''CRUD'' @ [25805, 20316]),
                   priority = MEDIUM, status = COMPLETED,
                   due_date = Some (ascii ''2024-01-02''),
                   created_at = 1002, updated_at = 1006\<rparr>]\<rparr>)
   \<and> partial_update_todo (ascii ''todo-1'') example_update example_world =
       update_todo (ascii ''todo-1'') example_update example_world
   \<and> update_todo (ascii ''todo-9'') example_update example_world = (Inl NotFound, example_world)
   \<and> partial_update_todo (ascii ''todo-9'') example_update example_world
       = (Inl NotFound, example_world)"
proof -
  have v: "TodoUpdate_valid example_update"
    by (simp add: TodoUpdate_valid_def example_update_def ascii_def)
  have r: "Update_result example_update example_world 1 =
       \<lparr>id' = ascii ''todo-1'', title = ascii ''Ship it'',
             description = Some ([23454, 29616] @ ascii ''CRUD'' @ [25805, 20316]),
             priority = MEDIUM, status = COMPLETED,
             due_date = Some (ascii ''2024-01-02''),
             created_at = 1002, updated_at = 1006\<rparr>"
    by (simp add: Update_result_def Update_spec_def overwrite_def overwrite_optional_def
        example_update_def example_world_eq example_clock_def)
  have c: "Suc (clock_calls example_world) = 7"
    by (simp add: example_world_eq)
  note t1 = update_and_partial_update_agree [of "ascii ''todo-1''" example_update example_world]
  note t9 = update_and_partial_update_agree [of "ascii ''todo-9''" example_update example_world]
  have a: "update_todo (ascii ''todo-1'') example_update example_world =
       (Inr (Update_result example_update example_world 1),
        example_world\<lparr>clock_calls := Suc (clock_calls example_world),
          todos_db := (todos_db example_world)
            [1 := Update_result example_update example_world 1]\<rparr>)"
    using t1 [THEN conjunct2, THEN conjunct1, rule_format, OF v] by (simp add: find_example)
  have b: "update_todo (ascii ''todo-9'') example_update example_world
             = (Inl NotFound, example_world)"
    using t9 [THEN conjunct2, THEN conjunct1, rule_format, OF v] by (simp add: find_example)
  have p1: "partial_update_todo (ascii ''todo-1'') example_update example_world =
       update_todo (ascii ''todo-1'') example_update example_world"
    using t1 [THEN conjunct1] by simp
  have p9: "partial_update_todo (ascii ''todo-9'') example_update example_world
              = (Inl NotFound, example_world)"
    using t9 [THEN conjunct1] b by simp
  show ?thesis
    using v a b p1 p9 unfolding r c by simp
qed

section \<open>Delete\<close>

text \<open>
  Claim C7: \<open>delete_todo\<close> fails exactly when no todo has the id, and then with \<open>NotFound\<close>;
  when one has, it returns a todo of the collection with that id and the size of the
  collection it leaves, and with distinct ids a following \<open>get_todo_by_id\<close> of the same id
  fails with \<open>NotFound\<close>.
\<close>

theorem delete_todo_not_found_iff:
  "(fst (delete_todo todo_id w) = Inl NotFound \<longleftrightarrow> todo_id \<notin> id' ` set (todos_db w))
   \<and> (\<forall>e. fst (delete_todo todo_id w) = Inl e \<longrightarrow> e = NotFound)
   \<and> (todo_id \<in> id' ` set (todos_db w) \<longrightarrow>
        (\<exists>r. fst (delete_todo todo_id w) = Inr r
              \<and> deleted_todo r \<in> set (todos_db w)
              \<and> id' (deleted_todo r) = todo_id
              \<and> remaining_count r = int (length (todos_db (snd (delete_todo todo_id w)))))
        \<and> (distinct (map id' (todos_db w)) \<longrightarrow>
              get_todo_by_id todo_id (snd (delete_todo todo_id w)) = Inl NotFound))"
proof (cases "find_todo_by_id todo_id (todos_db w)")
  case None
  then have nm: "todo_id \<notin> id' ` set (todos_db w)"
    by (simp add: find_todo_by_id_None_iff)
  have del: "delete_todo todo_id w = (Inl NotFound, w)"
    using None by (simp add: delete_todo_eq)
  show ?thesis
  proof (intro conjI impI)
    show "(fst (delete_todo todo_id w) = Inl NotFound) = (todo_id \<notin> id' ` set (todos_db w))"
      unfolding del using nm by simp
    show "\<forall>e. fst (delete_todo todo_id w) = Inl e \<longrightarrow> e = NotFound"
      unfolding del by simp
    show "\<exists>r. fst (delete_todo todo_id w) = Inr r
              \<and> deleted_todo r \<in> set (todos_db w)
              \<and> id' (deleted_todo r) = todo_id
              \<and> remaining_count r = int (length (todos_db (snd (delete_todo todo_id w))))"
      if "todo_id \<in> id' ` set (todos_db w)"
      using that nm by contradiction
    show "get_todo_by_id todo_id (snd (delete_todo todo_id w)) = Inl NotFound"
      if "todo_id \<in> id' ` set (todos_db w)"
      using that nm by contradiction
  qed
next
  case (Some i)
  note f = find_todo_by_id_Some [OF Some]
  from f have m: "todo_id \<in> id' ` set (todos_db w)"
    by (metis imageI nth_mem)
  have del: "delete_todo todo_id w =
      (Inr \<lparr>del_message = [24453, 21150, 20107, 39033, 21024, 38500, 25104, 21151],
                deleted_todo = todos_db w ! i,
                remaining_count = int (length (todos_db w)) - 1\<rparr>,
           w\<lparr>todos_db := take i (todos_db w) @ drop (Suc i) (todos_db w)\<rparr>)"
    using Some by (simp add: delete_todo_eq)
  have l: "int (length (todos_db w)) - 1
             = int (length (take i (todos_db w) @ drop (Suc i) (todos_db w)))"
    using f by auto
  show ?thesis
  proof (intro conjI impI)
    show "(fst (delete_todo todo_id w) = Inl NotFound) = (todo_id \<notin> id' ` set (todos_db w))"
      unfolding del using m by simp
    show "\<forall>e. fst (delete_todo todo_id w) = Inl e \<longrightarrow> e = NotFound"
      unfolding del by simp
    show "\<exists>r. fst (delete_todo todo_id w) = Inr r
              \<and> deleted_todo r \<in> set (todos_db w)
              \<and> id' (deleted_todo r) = todo_id
              \<and> remaining_count r = int (length (todos_db (snd (delete_todo todo_id w))))"
      unfolding del using f l by simp
    show "get_todo_by_id todo_id (snd (delete_todo todo_id w)) = Inl NotFound"
      if d: "distinct (map id' (todos_db w))"
    proof -
      have "todos_db (snd (delete_todo todo_id w))
              = filter (\<lambda>todo. id' todo \<noteq> todo_id) (todos_db w)"
        unfolding del using remove_first_distinct [OF d Some] by simp
      then have "todo_id \<notin> id' ` set (todos_db (snd (delete_todo todo_id w)))"
        by auto
      then have "find_todo_by_id todo_id (todos_db (snd (delete_todo todo_id w))) = None"
        by (rule iffD2 [OF find_todo_by_id_None_iff])
      then show ?thesis
        by (simp add: get_todo_by_id_eq)
    qed
  qed
qed

theorem delete_todo_not_found_iff_witness:
  "ascii ''todo-1'' \<in> id' ` set (todos_db example_world)
   \<and> distinct (map id' (todos_db example_world))
   \<and> ascii ''todo-9'' \<notin> id' ` set (todos_db example_world)
   \<and> fst (delete_todo (ascii ''todo-9'') example_world) = Inl NotFound
   \<and> fst (delete_todo (ascii ''todo-1'') example_world) \<noteq> Inl NotFound
   \<and> get_todo_by_id (ascii ''todo-1'') (snd (delete_todo (ascii ''todo-1'') example_world))
       = Inl NotFound"
proof -
  have m: "ascii ''todo-1'' \<in> id' ` set (todos_db example_world)"
    by (simp add: example_world_eq ascii_def)
  have d: "distinct (map id' (todos_db example_world))"
    by (simp add: example_world_eq ascii_def)
  have n: "ascii ''todo-9'' \<notin> id' ` set (todos_db example_world)"
    by (simp add: example_world_eq ascii_def)
  note t1 = delete_todo_not_found_iff [of "ascii ''todo-1''" example_world]
  note t9 = delete_todo_not_found_iff [of "ascii ''todo-9''" example_world]
  have a: "fst (delete_todo (ascii ''todo-9'') example_world) = Inl NotFound"
    by (rule iffD2 [OF t9 [THEN conjunct1] n])
  have b: "fst (delete_todo (ascii ''todo-1'') example_world) \<noteq> Inl NotFound"
  proof
    assume "fst (delete_todo (ascii ''todo-1'') example_world) = Inl NotFound"
    then have "ascii ''todo-1'' \<notin> id' ` set (todos_db example_world)"
      by (rule iffD1 [OF t1 [THEN conjunct1]])
    with m show False by contradiction
  qed
  have c: "get_todo_by_id (ascii ''todo-1'') (snd (delete_todo (ascii ''todo-1'') example_world))
       = Inl NotFound"
    by (rule t1 [THEN conjunct2, THEN conjunct2, rule_format, OF m, THEN conjunct2,
          rule_format, OF d])
  show ?thesis
    by (intro conjI m d n a b c)
qed

text \<open>
  Claim C10: with distinct ids, deleting an id that occurs removes that one record and
  nothing else: the collection \<open>pre @ deleted # post\<close> becomes \<open>pre @ post\<close>, which is the
  collection filtered by "another id", so every other todo is kept as it is and in its
  order; the rest of the state is untouched and \<open>remaining_count\<close> is the old size minus one.
\<close>

theorem delete_todo_removes_exactly_one:
  assumes "distinct (map id' (todos_db w))" and "todo_id \<in> id' ` set (todos_db w)"
  shows "\<exists>r pre post.
           delete_todo todo_id w =
             (Inr r, w\<lparr>todos_db := filter (\<lambda>todo. id' todo \<noteq> todo_id) (todos_db w)\<rparr>)
           \<and> todos_db w = pre @ deleted_todo r # post
           \<and> filter (\<lambda>todo. id' todo \<noteq> todo_id) (todos_db w) = pre @ post
           \<and> id' (deleted_todo r) = todo_id
           \<and> remaining_count r = int (length (todos_db w)) - 1"
proof -
  from assms(2) obtain i where i: "find_todo_by_id todo_id (todos_db w) = Some i"
    using find_todo_by_id_None_iff [of todo_id "todos_db w"] by (cases "find_todo_by_id todo_id (todos_db w)") auto
  note f = find_todo_by_id_Some [OF i]
  note e = remove_first_distinct [OF assms(1) i]
  have s: "todos_db w = take i (todos_db w) @ (todos_db w ! i) # drop (Suc i) (todos_db w)"
    using f by (simp add: id_take_nth_drop)
  show ?thesis
    apply (rule exI [of _ "\<lparr>del_message = [24453, 21150, 20107, 39033, 21024, 38500, 25104, 21151],
                deleted_todo = todos_db w ! i,
                remaining_count = int (length (todos_db w)) - 1\<rparr>"])
    apply (rule exI [of _ "take i (todos_db w)"])
    apply (rule exI [of _ "drop (Suc i) (todos_db w)"])
    using i f e s by (simp add: delete_todo_eq)
qed

theorem delete_todo_removes_exactly_one_witness:
  "distinct (map id' (todos_db example_world))
   \<and> ascii ''todo-1'' \<in> id' ` set (todos_db example_world)
   \<and> map id' (todos_db (snd (delete_todo (ascii ''todo-1'') example_world)))
       = [ascii ''todo-0'', ascii ''todo-2'']
   \<and> map_sum id remaining_count (fst (delete_todo (ascii ''todo-1'') example_world)) = Inr 2"
proof -
  have m: "ascii ''todo-1'' \<in> id' ` set (todos_db example_world)"
    by (simp add: example_world_eq ascii_def)
  have d: "distinct (map id' (todos_db example_world))"
    by (simp add: example_world_eq ascii_def)
  from delete_todo_removes_exactly_one [OF d m]
  obtain r where r: "delete_todo (ascii ''todo-1'') example_world =
             (Inr r, example_world\<lparr>todos_db := filter (\<lambda>todo. id' todo \<noteq> ascii ''todo-1'') (todos_db example_world)\<rparr>)"
    "remaining_count r = int (length (todos_db example_world)) - 1"
    by blast
  have a: "map id' (todos_db (snd (delete_todo (ascii ''todo-1'') example_world)))
       = [ascii ''todo-0'', ascii ''todo-2'']"
    unfolding r by (simp add: example_world_eq ascii_def)
  have b: "map_sum id remaining_count (fst (delete_todo (ascii ''todo-1'') example_world)) = Inr 2"
    unfolding r by (simp add: r example_world_eq)
  show ?thesis
    by (intro conjI d m a b)
qed

section \<open>List\<close>

lemma map_TodoResponse: "map TodoResponse xs = xs"
  by (induction xs) (simp_all add: TodoResponse_def)

lemma small_numerals:
  "(2::nat) = Suc (Suc 0)" "(3::nat) = Suc (Suc (Suc 0))" "(4::nat) = Suc (Suc (Suc (Suc 0)))"
  "(5::nat) = Suc (Suc (Suc (Suc (Suc 0))))" "(6::nat) = Suc (Suc (Suc (Suc (Suc (Suc 0)))))"
  by simp_all

lemma get_all_todos_eq:
  "get_all_todos skip limit status_filter priority_filter db =
     py_slice (filter (List_matches status_filter priority_filter) db) skip (skip + limit)"
  by (cases status_filter; cases priority_filter)
     (simp_all add: get_all_todos_def List_matches_def [abs_def] map_TodoResponse Let_def)

lemma startup_eq:
  "startup uuids clk =
     \<lparr>todos_db =
        [\<lparr>id' = uuids 0,
          title = [23398, 20064] @ ascii ''FastAPI'',
          description = Some [23436, 25104, 31532, 19977, 22825, 30340, 23398, 20064, 20219, 21153],
          priority = HIGH, status = COMPLETED,
          due_date = Some (ascii ''2024-01-01''),
          created_at = clk 0, updated_at = clk 1\<rparr>,
         \<lparr>id' = uuids 1,
          title = [32534, 20889] @ ascii ''Todo API'',
          description = Some ([23454, 29616] @ ascii ''CRUD'' @ [25805, 20316]),
          priority = MEDIUM, status = IN_PROGRESS,
          due_date = Some (ascii ''2024-01-02''),
          created_at = clk 2, updated_at = clk 3\<rparr>,
         \<lparr>id' = uuids 2,
          title = [23398, 20064, 24322, 27493, 32534, 31243],
          description = Some ([29702, 35299] @ ascii ''async/await'' @ [35821, 27861]),
          priority = LOW, status = PENDING,
          due_date = Some (ascii ''2024-01-03''),
          created_at = clk 4, updated_at = clk 5\<rparr>],
      uuid4_values = uuids, uuid4_calls = 3,
      clock = clk, clock_calls = 6\<rparr>"
  by (simp add: startup_def initialize_sample_data_def generate_id_def
      get_current_timestamp_def small_numerals)

text \<open>
  Claim C6: for non-negative \<open>skip\<close> and \<open>limit\<close>, \<open>get_all_todos\<close> returns the collection
  filtered by the status (if one is given) and by the priority (if one is given), in
  insertion order, without its first \<open>skip\<close> elements and cut to \<open>limit\<close> elements; on
  the seeded store \<open>skip = 0\<close>, \<open>limit = 10\<close> and no filter return the three seeded
  records in the order they were inserted.
\<close>

theorem get_all_todos_filter_then_page:
  "(0 \<le> skip \<and> 0 \<le> limit \<longrightarrow>
      get_all_todos skip limit status_filter priority_filter db =
        take (nat limit) (drop (nat skip)
          (filter (List_matches status_filter priority_filter) db)))
   \<and> get_all_todos 0 10 None None (todos_db (startup uuids clk)) = todos_db (startup uuids clk)
   \<and> map id' (get_all_todos 0 10 None None (todos_db (startup uuids clk)))
       = [uuids 0, uuids 1, uuids 2]"
proof -
  have a: "get_all_todos skip limit status_filter priority_filter db =
        take (nat limit) (drop (nat skip)
          (filter (List_matches status_filter priority_filter) db))"
    if "0 \<le> skip \<and> 0 \<le> limit"
    using that by (simp add: get_all_todos_eq py_slice_nonneg)
  have l: "length (todos_db (startup uuids clk)) = 3"
    by (simp add: startup_eq)
  have b: "get_all_todos 0 10 None None (todos_db (startup uuids clk)) = todos_db (startup uuids clk)"
    using py_slice_nonneg [of 0 10 "todos_db (startup uuids clk)"] l
    by (simp add: get_all_todos_eq List_matches_def)
  have c: "map id' (get_all_todos 0 10 None None (todos_db (startup uuids clk)))
       = [uuids 0, uuids 1, uuids 2]"
    unfolding b by (simp add: startup_eq)
  from a b c show ?thesis by blast
qed

theorem get_all_todos_filter_then_page_witness:
  "(0::int) \<le> 1 \<and> (0::int) \<le> 1
   \<and> map id' (get_all_todos 1 1 None None (todos_db example_world)) = [ascii ''todo-1'']
   \<and> map id' (get_all_todos 0 10 (Some PENDING) (Some LOW) (todos_db example_world))
        = [ascii ''todo-2'']"
proof -
  have h: "(0::int) \<le> 1 \<and> (0::int) \<le> 1" by simp
  have k: "(0::int) \<le> 0 \<and> (0::int) \<le> 10" by simp
  note t1 = get_all_todos_filter_then_page [THEN conjunct1, rule_format, OF h,
      of None None "todos_db example_world"]
  note t2 = get_all_todos_filter_then_page [THEN conjunct1, rule_format, OF k,
      of "Some PENDING" "Some LOW" "todos_db example_world"]
  have a: "map id' (get_all_todos 1 1 None None (todos_db example_world)) = [ascii ''todo-1'']"
    unfolding t1 by (simp add: example_world_eq List_matches_def)
  have b: "map id' (get_all_todos 0 10 (Some PENDING) (Some LOW) (todos_db example_world))
        = [ascii ''todo-2'']"
    unfolding t2 by (simp add: example_world_eq List_matches_def)
  from h a b show ?thesis by simp
qed

section \<open>Search\<close>

lemma search_todos_eq:
  "search_todos lower q skip limit db =
     (if list_all isspace q then Inl InvalidArgument
      else Inr \<lparr>results = py_slice (filter (Search_matches lower (strip (lower q))) db)
                           skip (skip + limit),
                total_found = int (length (filter (Search_matches lower (strip (lower q))) db)),
                search_term = strip (lower q)\<rparr>)"
proof -
  have g: "(q = [] \<or> length (strip q) = 0) = list_all isspace q"
    using search_guard [of q] strip_Nil_iff [of q] by simp
  show ?thesis
    unfolding search_todos_def g
    by (simp add: Let_def search_loop_filter map_TodoResponse)
qed

lemma Search_matches_substring:
  "Search_matches lower t todo \<longleftrightarrow>
     (\<exists>ps ss. lower (title todo) = ps @ t @ ss)
     \<or> (\<exists>d ps ss. description todo = Some d \<and> lower d = ps @ t @ ss)"
  by (cases "description todo") (auto simp: Search_matches_def sublist_def)

text \<open>
  Claim C4: \<open>search_todos\<close> fails with \<open>InvalidArgument\<close> exactly when the query consists of
  whitespace only (the empty query included), which is when stripping it leaves nothing.
  Otherwise the matches are the todos of the collection, in its order, whose lowered title
  or whose lowered description, if there is one, contains the lowered and stripped query
  as a substring; \<open>total_found\<close> is the number of all matches, \<open>search_term\<close> is the lowered
  and stripped query, and for non-negative \<open>skip\<close> and \<open>limit\<close> the page is the matches
  without the first \<open>skip\<close>, cut to \<open>limit\<close>.
\<close>

theorem search_todos_matches_then_page:
  "search_todos lower q skip limit db =
     (if list_all isspace q then Inl InvalidArgument
      else Inr \<lparr>results = py_slice (filter (Search_matches lower (strip (lower q))) db)
                           skip (skip + limit),
                total_found = int (length (filter (Search_matches lower (strip (lower q))) db)),
                search_term = strip (lower q)\<rparr>)
   \<and> (list_all isspace q \<longleftrightarrow> strip q = [])
   \<and> (Search_matches lower (strip (lower q)) todo \<longleftrightarrow>
        (\<exists>ps ss. lower (title todo) = ps @ strip (lower q) @ ss)
        \<or> (\<exists>d ps ss. description todo = Some d \<and> lower d = ps @ strip (lower q) @ ss))
   \<and> (0 \<le> skip \<and> 0 \<le> limit \<longrightarrow>
        py_slice (filter (Search_matches lower (strip (lower q))) db) skip (skip + limit)
          = take (nat limit) (drop (nat skip)
              (filter (Search_matches lower (strip (lower q))) db)))"
proof (intro conjI impI)
  show "search_todos lower q skip limit db =
     (if list_all isspace q then Inl InvalidArgument
      else Inr \<lparr>results = py_slice (filter (Search_matches lower (strip (lower q))) db)
                           skip (skip + limit),
                total_found = int (length (filter (Search_matches lower (strip (lower q))) db)),
                search_term = strip (lower q)\<rparr>)"
    by (rule search_todos_eq)
  show "list_all isspace q = (strip q = [])"
    by (rule strip_Nil_iff [symmetric])
  show "Search_matches lower (strip (lower q)) todo =
        ((\<exists>ps ss. lower (title todo) = ps @ strip (lower q) @ ss)
        \<or> (\<exists>d ps ss. description todo = Some d \<and> lower d = ps @ strip (lower q) @ ss))"
    by (rule Search_matches_substring)
  show "py_slice (filter (Search_matches lower (strip (lower q))) db) skip (skip + limit)
          = take (nat limit) (drop (nat skip)
              (filter (Search_matches lower (strip (lower q))) db))"
    if "0 \<le> skip \<and> 0 \<le> limit"
    using that by (simp add: py_slice_nonneg)
qed

theorem search_todos_matches_then_page_witness:
  "(0::int) \<le> 0 \<and> (0::int) \<le> 10
   \<and> \<not> list_all isspace (ascii '' FASTAPI '')
   \<and> search_todos ascii_lower (ascii '' FASTAPI '') 0 10 (todos_db example_world) =
       Inr \<lparr>results = [todos_db example_world ! 0], total_found = 1,
            search_term = ascii ''fastapi''\<rparr>
   \<and> list_all isspace (ascii ''   '')
   \<and> search_todos ascii_lower (ascii ''   '') 0 10 (todos_db example_world) = Inl InvalidArgument"
proof -
  have h: "(0::int) \<le> 0 \<and> (0::int) \<le> 10" by simp
  have q1: "strip (ascii_lower (ascii '' FASTAPI '')) = ascii ''fastapi''"
    by (simp add: strip_def ascii_lower_def ascii_def isspace_def)
  have q2: "\<not> list_all isspace (ascii '' FASTAPI '')"
    by (simp add: ascii_def isspace_def)
  have q3: "list_all isspace (ascii ''   '')"
    by (simp add: ascii_def isspace_def)
  have f: "filter (Search_matches ascii_lower (ascii ''fastapi'')) (todos_db example_world)
             = [todos_db example_world ! 0]"
    by (simp add: example_world_eq Search_matches_def ascii_lower_def ascii_def sublist_code)
  note t = search_todos_matches_then_page
    [of ascii_lower "ascii '' FASTAPI ''" 0 10 "todos_db example_world"]
  note p = t [THEN conjunct2, THEN conjunct2, THEN conjunct2, rule_format, OF h,
      unfolded q1 f]
  have a: "search_todos ascii_lower (ascii '' FASTAPI '') 0 10 (todos_db example_world) =
       Inr \<lparr>results = [todos_db example_world ! 0], total_found = 1,
            search_term = ascii ''fastapi''\<rparr>"
    unfolding t [THEN conjunct1] q1 f p using q2 by simp
  have b: "search_todos ascii_lower (ascii ''   '') 0 10 (todos_db example_world)
             = Inl InvalidArgument"
    unfolding search_todos_matches_then_page
        [of ascii_lower "ascii ''   ''" 0 10 "todos_db example_world", THEN conjunct1]
    using q3 by simp
  show ?thesis
    by (intro conjI h [THEN conjunct1] h [THEN conjunct2] q2 a q3 b)
qed

section \<open>Failures leave the state\<close>

lemma map_sum_Inl_iff: "map_sum id f x = Inl e \<longleftrightarrow> x = Inl e"
  by (cases x) simp_all

lemma create_todo_failure:
  assumes "fst (create_todo todo w) = Inl e"
  shows "snd (create_todo todo w) = w"
proof (cases "TodoCreate_valid todo")
  case True
  from assms show ?thesis
    unfolding create_todo_eq [OF True] by simp
next
  case False
  then show ?thesis by (simp add: create_todo_def)
qed

lemma update_todo_failure:
  "fst (update_todo todo_id upd w) = Inl e \<Longrightarrow> snd (update_todo todo_id upd w) = w"
  by (cases "TodoUpdate_valid upd"; cases "find_todo_by_id todo_id (todos_db w)")
     (simp_all add: update_todo_eq update_todo_invalid)

lemma delete_todo_failure:
  "fst (delete_todo todo_id w) = Inl e \<Longrightarrow> snd (delete_todo todo_id w) = w"
  by (cases "find_todo_by_id todo_id (todos_db w)") (simp_all add: delete_todo_eq)

lemma mark_todo_complete_failure:
  "fst (mark_todo_complete todo_id w) = Inl e \<Longrightarrow> snd (mark_todo_complete todo_id w) = w"
  by (cases "find_todo_by_id todo_id (todos_db w)") (simp_all add: mark_todo_complete_eq)

lemma start_todo_failure:
  "fst (start_todo todo_id w) = Inl e \<Longrightarrow> snd (start_todo todo_id w) = w"
  by (cases "find_todo_by_id todo_id (todos_db w)") (simp_all add: start_todo_eq)

text \<open>
  Claim C9: whenever a request fails, with whatever error, the state after it is the state
  before it; in particular the collection is the same.
\<close>

theorem failed_request_leaves_state:
  assumes f: "fst (handle lower request w) = Inl e"
  shows "snd (handle lower request w) = w
         \<and> todos_db (snd (handle lower request w)) = todos_db w"
proof (cases request)
  case (Create todo)
  then show ?thesis
    using f create_todo_failure [of todo w e] by (simp add: map_sum_Inl_iff)
next
  case (Update todo_id upd)
  then show ?thesis
    using f update_todo_failure [of todo_id upd w e] by (simp add: map_sum_Inl_iff)
next
  case (PartialUpdate todo_id upd)
  then show ?thesis
    using f update_todo_failure [of todo_id upd w e]
    by (simp add: map_sum_Inl_iff put_is_patch [symmetric])
next
  case (Delete todo_id)
  then show ?thesis
    using f delete_todo_failure [of todo_id w e] by (simp add: map_sum_Inl_iff)
next
  case (MarkComplete todo_id)
  then show ?thesis
    using f mark_todo_complete_failure [of todo_id w e] by (simp add: map_sum_Inl_iff)
next
  case (MarkInProgress todo_id)
  then show ?thesis
    using f start_todo_failure [of todo_id w e] by (simp add: map_sum_Inl_iff)
qed simp_all

theorem failed_request_leaves_state_witness:
  "fst (handle ascii_lower (Delete (ascii ''todo-9'')) example_world) = Inl NotFound
   \<and> snd (handle ascii_lower (Delete (ascii ''todo-9'')) example_world) = example_world
   \<and> fst (handle ascii_lower (Create example_invalid_create) example_world) = Inl ValidationError
   \<and> snd (handle ascii_lower (Create example_invalid_create) example_world) = example_world
   \<and> fst (handle ascii_lower (Search (ascii ''   '') 0 10) example_world) = Inl InvalidArgument
   \<and> snd (handle ascii_lower (Search (ascii ''   '') 0 10) example_world) = example_world"
proof -
  have a: "fst (handle ascii_lower (Delete (ascii ''todo-9'')) example_world) = Inl NotFound"
    by (simp add: delete_todo_eq find_example)
  have b: "fst (handle ascii_lower (Create example_invalid_create) example_world)
             = Inl ValidationError"
    by (simp add: create_todo_def TodoCreate_valid_def example_invalid_create_def)
  have c: "fst (handle ascii_lower (Search (ascii ''   '') 0 10) example_world)
             = Inl InvalidArgument"
    by (simp add: search_todos_def strip_def isspace_def ascii_def)
  show ?thesis
    using a b c
      failed_request_leaves_state [OF a, THEN conjunct1]
      failed_request_leaves_state [OF b, THEN conjunct1]
      failed_request_leaves_state [OF c, THEN conjunct1]
    by (intro conjI)
qed

section \<open>The order of the timestamps\<close>

lemma stamps_ordered_replace:
  assumes m: "mono (clock w)" and s: "stamps_ordered w" and i: "i < length (todos_db w)"
    and c: "created_at t' = created_at (todos_db w ! i)"
    and u: "updated_at t' = clock w (clock_calls w)"
  shows "stamps_ordered (w\<lparr>clock_calls := Suc (clock_calls w),
                           todos_db := (todos_db w)[i := t']\<rparr>)"
proof -
  have step: "clock w (clock_calls w) \<le> clock w (Suc (clock_calls w))"
    using m by (simp add: monoD)
  have old: "created_at todo \<le> updated_at todo \<and> updated_at todo \<le> clock w (clock_calls w)"
    if "todo \<in> set (todos_db w)" for todo
    using s that by (simp add: stamps_ordered_def list_all_iff)
  have new: "created_at t' \<le> updated_at t'"
    using old [of "todos_db w ! i"] i c u by simp
  have "created_at todo \<le> updated_at todo \<and> updated_at todo \<le> clock w (Suc (clock_calls w))"
    if "todo \<in> set ((todos_db w)[i := t'])" for todo
  proof -
    from that have "todo = t' \<or> todo \<in> set (todos_db w)"
      using set_update_subset_insert [of "todos_db w" i t'] by auto
    then show ?thesis
    proof
      assume "todo = t'"
      with new u step show ?thesis by simp
    next
      assume "todo \<in> set (todos_db w)"
      with old [of todo] step show ?thesis by simp
    qed
  qed
  then show ?thesis
    by (simp add: stamps_ordered_def list_all_iff)
qed

lemma stamps_ordered_append:
  assumes m: "mono (clock w)" and s: "stamps_ordered w"
    and c: "created_at t' = clock w (clock_calls w)"
    and u: "updated_at t' = clock w (Suc (clock_calls w))"
  shows "stamps_ordered (w\<lparr>uuid4_calls := k, clock_calls := Suc (Suc (clock_calls w)),
                           todos_db := todos_db w @ [t']\<rparr>)"
proof -
  have s1: "clock w (clock_calls w) \<le> clock w (Suc (clock_calls w))"
    using m by (simp add: monoD)
  have s2: "clock w (Suc (clock_calls w)) \<le> clock w (Suc (Suc (clock_calls w)))"
    using m by (simp add: monoD)
  have old: "created_at todo \<le> updated_at todo \<and> updated_at todo \<le> clock w (clock_calls w)"
    if "todo \<in> set (todos_db w)" for todo
    using s that by (simp add: stamps_ordered_def list_all_iff)
  have "created_at todo \<le> updated_at todo
          \<and> updated_at todo \<le> clock w (Suc (Suc (clock_calls w)))"
    if "todo \<in> set (todos_db w @ [t'])" for todo
  proof -
    from that have "todo = t' \<or> todo \<in> set (todos_db w)" by auto
    then show ?thesis
    proof
      assume "todo = t'"
      with c u s1 s2 show ?thesis by simp
    next
      assume "todo \<in> set (todos_db w)"
      with old [of todo] s1 s2 show ?thesis by simp
    qed
  qed
  then show ?thesis
    by (simp add: stamps_ordered_def list_all_iff)
qed

lemma stamps_ordered_remove:
  assumes s: "stamps_ordered w"
  shows "stamps_ordered (w\<lparr>todos_db := take i (todos_db w) @ drop (Suc i) (todos_db w)\<rparr>)"
proof -
  have "set (take i (todos_db w) @ drop (Suc i) (todos_db w)) \<subseteq> set (todos_db w)"
    using set_take_subset [of i "todos_db w"] set_drop_subset [of "Suc i" "todos_db w"] by simp
  with s show ?thesis
    by (auto simp: stamps_ordered_def list_all_iff)
qed

lemma Update_result_stamps:
  "created_at (Update_result upd w i) = created_at (todos_db w ! i)"
  "updated_at (Update_result upd w i) = clock w (clock_calls w)"
  by (simp_all add: Update_result_def Update_spec_def)

lemma update_todo_preserves:
  assumes "mono (clock w)" and "stamps_ordered w"
  shows "stamps_ordered (snd (update_todo todo_id upd w))
         \<and> clock (snd (update_todo todo_id upd w)) = clock w"
proof (cases "TodoUpdate_valid upd")
  case False
  with assms show ?thesis by (simp add: update_todo_invalid)
next
  case True
  show ?thesis
  proof (cases "find_todo_by_id todo_id (todos_db w)")
    case None
    with True assms show ?thesis by (simp add: update_todo_eq)
  next
    case (Some i)
    then have "i < length (todos_db w)" by (simp add: find_todo_by_id_Some)
    from stamps_ordered_replace [OF assms this Update_result_stamps [of upd w i]]
    show ?thesis using True Some by (simp add: update_todo_eq)
  qed
qed

lemma mark_todo_complete_preserves:
  assumes "mono (clock w)" and "stamps_ordered w"
  shows "stamps_ordered (snd (mark_todo_complete todo_id w))
         \<and> clock (snd (mark_todo_complete todo_id w)) = clock w"
proof (cases "find_todo_by_id todo_id (todos_db w)")
  case None
  with assms show ?thesis by (simp add: mark_todo_complete_eq)
next
  case (Some i)
  then have "i < length (todos_db w)" by (simp add: find_todo_by_id_Some)
  from stamps_ordered_replace [OF assms this,
      of "(todos_db w ! i)\<lparr>status := COMPLETED, updated_at := clock w (clock_calls w)\<rparr>"]
  show ?thesis using Some by (simp add: mark_todo_complete_eq)
qed

lemma start_todo_preserves:
  assumes "mono (clock w)" and "stamps_ordered w"
  shows "stamps_ordered (snd (start_todo todo_id w))
         \<and> clock (snd (start_todo todo_id w)) = clock w"
proof (cases "find_todo_by_id todo_id (todos_db w)")
  case None
  with assms show ?thesis by (simp add: start_todo_eq)
next
  case (Some i)
  then have "i < length (todos_db w)" by (simp add: find_todo_by_id_Some)
  from stamps_ordered_replace [OF assms this,
      of "(todos_db w ! i)\<lparr>status := IN_PROGRESS, updated_at := clock w (clock_calls w)\<rparr>"]
  show ?thesis using Some by (simp add: start_todo_eq)
qed

lemma create_todo_preserves:
  assumes "mono (clock w)" and "stamps_ordered w"
  shows "stamps_ordered (snd (create_todo todo w)) \<and> clock (snd (create_todo todo w)) = clock w"
proof (cases "TodoCreate_valid todo")
  case False
  with assms show ?thesis by (simp add: create_todo_def)
next
  case True
  from stamps_ordered_append [OF assms,
      of "\<lparr>id' = uuid4_values w (uuid4_calls w),
           title = c_title todo, description = c_description todo,
           priority = c_priority todo, status = PENDING, due_date = c_due_date todo,
           created_at = clock w (clock_calls w),
           updated_at = clock w (Suc (clock_calls w))\<rparr>" "Suc (uuid4_calls w)"]
  show ?thesis using True by (simp add: create_todo_eq)
qed

lemma delete_todo_preserves:
  assumes "stamps_ordered w"
  shows "stamps_ordered (snd (delete_todo todo_id w)) \<and> clock (snd (delete_todo todo_id w)) = clock w"
proof (cases "find_todo_by_id todo_id (todos_db w)")
  case None
  with assms show ?thesis by (simp add: delete_todo_eq)
next
  case (Some i)
  from stamps_ordered_remove [OF assms, of i]
  show ?thesis using Some by (simp add: delete_todo_eq)
qed

lemma handle_preserves:
  assumes "mono (clock w)" and "stamps_ordered w"
  shows "stamps_ordered (snd (handle lower request w))
         \<and> clock (snd (handle lower request w)) = clock w"
proof (cases request)
  case (Create todo)
  then show ?thesis using create_todo_preserves [OF assms] by simp
next
  case (Update todo_id upd)
  then show ?thesis using update_todo_preserves [OF assms] by simp
next
  case (PartialUpdate todo_id upd)
  then show ?thesis using update_todo_preserves [OF assms] by (simp add: put_is_patch [symmetric])
next
  case (Delete todo_id)
  then show ?thesis using delete_todo_preserves [OF assms(2)] by simp
next
  case (MarkComplete todo_id)
  then show ?thesis using mark_todo_complete_preserves [OF assms] by simp
next
  case (MarkInProgress todo_id)
  then show ?thesis using start_todo_preserves [OF assms] by simp
qed (simp_all add: assms)

lemma run_preserves:
  "mono (clock w) \<Longrightarrow> stamps_ordered w \<Longrightarrow> stamps_ordered (run lower requests w)"
proof (induction requests arbitrary: w)
  case Nil
  then show ?case by simp
next
  case (Cons r rs)
  from handle_preserves [OF Cons.prems, of lower r]
  have "stamps_ordered (snd (handle lower r w))" and "mono (clock (snd (handle lower r w)))"
    using Cons.prems(1) by simp_all
  then show ?case
    using Cons.IH [of "snd (handle lower r w)"] by simp
qed

lemma startup_stamps_ordered:
  assumes "mono clk"
  shows "stamps_ordered (startup uuids clk) \<and> clock (startup uuids clk) = clk"
proof -
  have "clk 0 \<le> clk 1" "clk 1 \<le> clk 6" "clk 2 \<le> clk 3" "clk 3 \<le> clk 6"
    "clk 4 \<le> clk 5" "clk 5 \<le> clk 6"
    using assms by (simp_all add: monoD)
  then show ?thesis
    by (simp add: startup_eq stamps_ordered_def)
qed

lemma example_run:
  "todos_db (run ascii_lower [Create example_create, MarkComplete (ascii ''todo-2''),
                              Delete (ascii ''todo-0'')] example_world) =
     [\<lparr>id' = ascii ''todo-1'',
       title = [32534, 20889] @ ascii ''Todo API'',
       description = Some ([23454, 29616] @ ascii ''CRUD'' @ [25805, 20316]),
       priority = MEDIUM, status = IN_PROGRESS,
       due_date = Some (ascii ''2024-01-02''),
       created_at = 1002, updated_at = 1003\<rparr>,
      \<lparr>id' = ascii ''todo-2'',
       title = [23398, 20064, 24322, 27493, 32534, 31243],
       description = Some ([29702, 35299] @ ascii ''async/await'' @ [35821, 27861]),
       priority = LOW, status = COMPLETED,
       due_date = Some (ascii ''2024-01-03''),
       created_at = 1004, updated_at = 1008\<rparr>,
      \<lparr>id' = ascii ''todo-3'', title = ascii ''Write tests'', description = None,
       priority = MEDIUM, status = PENDING, due_date = None,
       created_at = 1006, updated_at = 1007\<rparr>]"
proof -
  have w1: "snd (handle ascii_lower (Create example_create) example_world)
              = example_world\<lparr>uuid4_calls := 4, clock_calls := 8, todos_db := example_db4\<rparr>"
    by (simp add: create_example)
  have f2: "find_todo_by_id (ascii ''todo-2'') example_db4 = Some 2"
    unfolding example_db4_eq by (simp add: ascii_def)
  have c8: "clock example_world 8 = 1008"
    by (simp add: example_world_eq example_clock_def)
  show ?thesis
    unfolding run.simps w1
    by (simp add: mark_todo_complete_eq delete_todo_eq f2 c8)
       (simp add: example_db4_eq ascii_def)
qed

text \<open>
  Claim C8: with a monotone clock, \<open>created_at \<le> updated_at\<close> holds for every todo of the
  collection in every state that a sequence of requests (create, update, partial update,
  mark complete, mark in progress, delete, and the reading requests) reaches from the
  seeded start.
\<close>

theorem created_at_le_updated_at_invariant:
  "mono clk \<Longrightarrow>
     list_all (\<lambda>todo. created_at todo \<le> updated_at todo)
       (todos_db (run lower requests (startup uuids clk)))"
proof -
  assume m: "mono clk"
  from startup_stamps_ordered [OF m, of uuids]
  have "stamps_ordered (run lower requests (startup uuids clk))"
    using m run_preserves [of "startup uuids clk" lower requests] by simp
  then show ?thesis
    by (simp add: stamps_ordered_def list_all_iff)
qed

theorem created_at_le_updated_at_invariant_witness:
  "mono example_clock
   \<and> list_all (\<lambda>todo. created_at todo \<le> updated_at todo)
       (todos_db (run ascii_lower [Create example_create, MarkComplete (ascii ''todo-2''),
                                   Delete (ascii ''todo-0'')] example_world))
   \<and> map created_at
       (todos_db (run ascii_lower [Create example_create, MarkComplete (ascii ''todo-2''),
                                   Delete (ascii ''todo-0'')] example_world)) = [1002, 1004, 1006]
   \<and> map updated_at
       (todos_db (run ascii_lower [Create example_create, MarkComplete (ascii ''todo-2''),
                                   Delete (ascii ''todo-0'')] example_world)) = [1003, 1008, 1007]"
proof -
  have m: "mono example_clock"
    by (simp add: mono_def example_clock_def)
  note t = created_at_le_updated_at_invariant [OF m, of ascii_lower
      "[Create example_create, MarkComplete (ascii ''todo-2''), Delete (ascii ''todo-0'')]"
      example_uuids, folded example_world_def]
  have c: "map created_at
       (todos_db (run ascii_lower [Create example_create, MarkComplete (ascii ''todo-2''),
                                   Delete (ascii ''todo-0'')] example_world)) = [1002, 1004, 1006]"
    unfolding example_run by simp
  have u: "map updated_at
       (todos_db (run ascii_lower [Create example_create, MarkComplete (ascii ''todo-2''),
                                   Delete (ascii ''todo-0'')] example_world)) = [1003, 1008, 1007]"
    unfolding example_run by simp
  show ?thesis
    by (intro conjI m t c u)
qed

end
